theory Spec2Isabelle
  imports Complex_Main
begin

section \<open>Probability distributions of \<^verbatim>\<open>stable_baselines3/common/distributions.py\<close>\<close>

text \<open>
  The module is written against PyTorch. Tensors are modelled as a shape and the
  row-major list of their entries, floating-point numbers as real numbers (rounding,
  overflow, NaN and infinities are outside the model), Python exceptions as values
  of the type \<open>error\<close>, and every function that can raise returns \<open>error + 'a\<close>.
  Random draws are made by generators passed in as arguments. A method that assigns to
  \<^verbatim>\<open>self\<close> returns the updated instance; when it raises, the instance is lost with
  the call. PyTorch's own argument validation of the elementary distributions depends
  on its version and is left out. The methods that only build network layers
  (\<^verbatim>\<open>proba_distribution_net\<close>) or only chain two other methods (\<^verbatim>\<open>get_actions\<close>,
  \<^verbatim>\<open>actions_from_params\<close>, \<^verbatim>\<open>log_prob_from_params\<close>) are not part of the model.
  The one place where overflow is modelled is the standard deviation of the gSDE
  variant (\<^verbatim>\<open>get_std\<close>), whose entries are floating-point values that can be
  infinite or NaN; the methods of that variant that build a Gaussian from it
  (\<^verbatim>\<open>sample_weights\<close>, \<^verbatim>\<open>proba_distribution\<close>) are therefore outside the
  real-valued model and are left out: the state they set is taken as given.
\<close>

subsection \<open>Exceptions\<close>

datatype error =
    AttributeError
  | TypeError
  | KeyError
  | IndexError
  | ValueError
  | RuntimeError
  | AssertionError
  | NotImplementedError
  | Exception string

definition ebind :: "error + 'a \<Rightarrow> ('a \<Rightarrow> error + 'b) \<Rightarrow> error + 'b" where
  "ebind m f = (case m of Inl e \<Rightarrow> Inl e | Inr x \<Rightarrow> f x)"

subsection \<open>Tensors\<close>

record 'a tensor =
  shape :: "nat list"
  data :: "'a list"

definition numel :: "nat list \<Rightarrow> nat" where
  "numel s = prod_list s"

definition wf_tensor :: "'a tensor \<Rightarrow> bool" where
  "wf_tensor t = (length (data t) = numel (shape t))"

definition scalar :: "'a \<Rightarrow> 'a tensor" where
  "scalar x = \<lparr>shape = [], data = [x]\<rparr>"

definition map_t :: "('a \<Rightarrow> 'b) \<Rightarrow> 'a tensor \<Rightarrow> 'b tensor" where
  "map_t f t = \<lparr>shape = shape t, data = map f (data t)\<rparr>"

text \<open>Broadcasting: shapes are aligned at their last dimension; two sizes agree when
  they are equal or one of them is 1.\<close>

fun bshape_rev :: "nat list \<Rightarrow> nat list \<Rightarrow> nat list option" where
  "bshape_rev [] ys = Some ys"
| "bshape_rev (x # xs) [] = Some (x # xs)"
| "bshape_rev (x # xs) (y # ys) =
     (if x = y \<or> y = 1 then map_option ((#) x) (bshape_rev xs ys)
      else if x = 1 then map_option ((#) y) (bshape_rev xs ys)
      else None)"

definition broadcast_shapes :: "nat list \<Rightarrow> nat list \<Rightarrow> nat list option" where
  "broadcast_shapes a b = map_option rev (bshape_rev (rev a) (rev b))"

fun expand :: "nat list \<Rightarrow> nat list \<Rightarrow> 'a list \<Rightarrow> 'a list" where
  "expand (d # ds) (e # es) xs =
     (if e = d
      then concat (map (\<lambda>i. expand ds es (take (numel es) (drop (i * numel es) xs))) [0..<d])
      else concat (replicate d (expand ds es xs)))"
| "expand [] es xs = xs"
| "expand (d # ds) [] xs = xs"

definition expand_to :: "nat list \<Rightarrow> 'a tensor \<Rightarrow> 'a list" where
  "expand_to s t =
     expand s (replicate (length s - length (shape t)) 1 @ shape t) (data t)"

definition binop :: "('a \<Rightarrow> 'b \<Rightarrow> 'c) \<Rightarrow> 'a tensor \<Rightarrow> 'b tensor \<Rightarrow> error + 'c tensor" where
  "binop f a b =
     (case broadcast_shapes (shape a) (shape b) of
        None \<Rightarrow> Inl RuntimeError
      | Some s \<Rightarrow> Inr \<lparr>shape = s, data = map2 f (expand_to s a) (expand_to s b)\<rparr>)"

text \<open>\<^verbatim>\<open>tensor.sum()\<close> gives a 0-dimensional tensor; a reduction over \<^verbatim>\<open>dim=1\<close>
  needs at least two dimensions and removes the second one.\<close>

definition sum_all :: "real tensor \<Rightarrow> real tensor" where
  "sum_all t = scalar (sum_list (data t))"

definition reduce_dim1 :: "('a list \<Rightarrow> 'b) \<Rightarrow> 'a tensor \<Rightarrow> error + 'b tensor" where
  "reduce_dim1 f t =
     (case shape t of
        b # m # rest \<Rightarrow>
          Inr \<lparr>shape = b # rest,
               data = map (\<lambda>q. f (map (\<lambda>j. data t ! (((q div numel rest) * m + j) * numel rest
                                                    + q mod numel rest)) [0..<m]))
                          [0..<b * numel rest]\<rparr>
      | _ \<Rightarrow> Inl IndexError)"

definition sum_dim1 :: "real tensor \<Rightarrow> error + real tensor" where
  "sum_dim1 t = reduce_dim1 sum_list t"

subsection \<open>\<^verbatim>\<open>torch.distributions.Normal\<close>\<close>

record normal =
  loc :: "real tensor"
  scale :: "real tensor"

definition Normal :: "real tensor \<Rightarrow> real tensor \<Rightarrow> error + normal" where
  "Normal l s =
     (case broadcast_shapes (shape l) (shape s) of
        None \<Rightarrow> Inl RuntimeError
      | Some sh \<Rightarrow> Inr \<lparr>loc = \<lparr>shape = sh, data = expand_to sh l\<rparr>,
                        scale = \<lparr>shape = sh, data = expand_to sh s\<rparr>\<rparr>)"

definition normal_log_density :: "real \<Rightarrow> real \<Rightarrow> real \<Rightarrow> real" where
  "normal_log_density x m s = - ((x - m)\<^sup>2) / (2 * s\<^sup>2) - ln s - ln (sqrt (2 * pi))"

definition Normal_log_prob :: "normal \<Rightarrow> real tensor \<Rightarrow> error + real tensor" where
  "Normal_log_prob n v =
     ebind (binop (\<lambda>x m. (x, m)) v (loc n))
       (\<lambda>xm. binop (\<lambda>(x, m) s. normal_log_density x m s) xm (scale n))"

definition Normal_entropy :: "normal \<Rightarrow> real tensor" where
  "Normal_entropy n = map_t (\<lambda>s. 0.5 + 0.5 * ln (2 * pi) + ln s) (scale n)"

definition Normal_rsample :: "(nat list \<Rightarrow> real tensor) \<Rightarrow> nat list \<Rightarrow> normal \<Rightarrow> error + real tensor" where
  "Normal_rsample randn sample_shape n =
     ebind (binop (\<lambda>e s. e * s) (randn (sample_shape @ shape (loc n))) (scale n))
       (\<lambda>es. binop (\<lambda>m x. m + x) (loc n) es)"

subsection \<open>\<^verbatim>\<open>sum_independent_dims\<close>\<close>

definition sum_independent_dims :: "real tensor \<Rightarrow> error + real tensor" where
  "sum_independent_dims t =
     (if length (shape t) > 1 then sum_dim1 t else Inr (sum_all t))"

subsection \<open>\<^verbatim>\<open>DiagGaussianDistribution\<close>\<close>

record DiagGaussianDistribution =
  action_dim :: nat
  mean_actions :: "real tensor option"
  log_std :: "real tensor option"
  distribution :: "normal option"

definition DiagGaussianDistribution_init :: "nat \<Rightarrow> DiagGaussianDistribution" where
  "DiagGaussianDistribution_init n =
     \<lparr>action_dim = n, mean_actions = None, log_std = None, distribution = None\<rparr>"

definition DiagGaussianDistribution_proba_distribution ::
  "'z DiagGaussianDistribution_scheme \<Rightarrow> real tensor \<Rightarrow> real tensor
     \<Rightarrow> error + 'z DiagGaussianDistribution_scheme" where
  "DiagGaussianDistribution_proba_distribution self mean ls =
     ebind (binop (\<lambda>one s. one * s) (map_t (\<lambda>_. 1) mean) (map_t exp ls))
       (\<lambda>action_std. ebind (Normal mean action_std)
          (\<lambda>n. Inr (self\<lparr>distribution := Some n\<rparr>)))"

definition DiagGaussianDistribution_log_prob ::
  "'z DiagGaussianDistribution_scheme \<Rightarrow> real tensor \<Rightarrow> error + real tensor" where
  "DiagGaussianDistribution_log_prob self actions =
     (case distribution self of
        None \<Rightarrow> Inl AttributeError
      | Some n \<Rightarrow> ebind (Normal_log_prob n actions) sum_independent_dims)"

definition DiagGaussianDistribution_entropy ::
  "'z DiagGaussianDistribution_scheme \<Rightarrow> error + real tensor" where
  "DiagGaussianDistribution_entropy self =
     (case distribution self of
        None \<Rightarrow> Inl AttributeError
      | Some n \<Rightarrow> sum_independent_dims (Normal_entropy n))"

definition DiagGaussianDistribution_sample ::
  "(nat list \<Rightarrow> real tensor) \<Rightarrow> 'z DiagGaussianDistribution_scheme \<Rightarrow> error + real tensor" where
  "DiagGaussianDistribution_sample randn self =
     (case distribution self of
        None \<Rightarrow> Inl AttributeError
      | Some n \<Rightarrow> Normal_rsample randn [] n)"

definition DiagGaussianDistribution_mode ::
  "'z DiagGaussianDistribution_scheme \<Rightarrow> error + real tensor" where
  "DiagGaussianDistribution_mode self =
     (case distribution self of
        None \<Rightarrow> Inl AttributeError
      | Some n \<Rightarrow> Inr (loc n))"

definition isub :: "real tensor \<Rightarrow> real tensor \<Rightarrow> error + real tensor" where
  \<comment> \<open>\<^verbatim>\<open>a -= b\<close>: the result must have the shape of \<^verbatim>\<open>a\<close>\<close>
  "isub a b =
     (if broadcast_shapes (shape a) (shape b) = Some (shape a)
      then binop (\<lambda>x y. x - y) a b else Inl RuntimeError)"

subsection \<open>\<^verbatim>\<open>TanhBijector\<close>\<close>

text \<open>Tensors carry no dtype in this model; where the source reads \<^verbatim>\<open>y.dtype\<close>, the
  dtype is passed beside the tensor. \<open>finfo_eps\<close> is the table of
  \<^verbatim>\<open>torch.finfo(dtype).eps\<close>, the gap between 1.0 and the next larger number of the
  type; \<^verbatim>\<open>torch.finfo\<close> raises on an integer dtype.

  \<^verbatim>\<open>TanhBijector.atanh\<close> is written with the tensor primitive \<^verbatim>\<open>log1p\<close>. The model
  takes that primitive as an argument \<open>lp\<close> (applied entrywise), so that the form of
  the computation is part of the definition; the callers pass the real function
  \<open>log1p\<close>.\<close>

datatype dtype = Float16 | BFloat16 | Float32 | Float64 | Int64

fun finfo_eps :: "dtype \<Rightarrow> error + real" where
  "finfo_eps Float16 = Inr (1 / 2 ^ 10)"
| "finfo_eps BFloat16 = Inr (1 / 2 ^ 7)"
| "finfo_eps Float32 = Inr (1 / 2 ^ 23)"
| "finfo_eps Float64 = Inr (1 / 2 ^ 52)"
| "finfo_eps Int64 = Inl TypeError"

definition log1p :: "real \<Rightarrow> real" where
  "log1p x = ln (1 + x)"

definition clamp :: "real \<Rightarrow> real \<Rightarrow> real tensor \<Rightarrow> real tensor" where
  "clamp lo hi t = map_t (\<lambda>v. min (max v lo) hi) t"

record TanhBijector =
  epsilon :: real

definition TanhBijector_init :: "real \<Rightarrow> TanhBijector" where
  "TanhBijector_init eps = \<lparr>epsilon = eps\<rparr>"

definition TanhBijector_forward :: "real tensor \<Rightarrow> real tensor" where
  "TanhBijector_forward x = map_t tanh x"

definition TanhBijector_atanh :: "(real \<Rightarrow> real) \<Rightarrow> real tensor \<Rightarrow> real tensor" where
  "TanhBijector_atanh lp x = map_t (\<lambda>v. 0.5 * (lp v - lp (- v))) x"

definition TanhBijector_inverse ::
  "(real \<Rightarrow> real) \<Rightarrow> dtype \<Rightarrow> real tensor \<Rightarrow> error + real tensor" where
  "TanhBijector_inverse lp dt y =
     ebind (finfo_eps dt)
       (\<lambda>eps. Inr (TanhBijector_atanh lp (clamp (- 1 + eps) (1 - eps) y)))"

definition TanhBijector_log_prob_correction :: "TanhBijector \<Rightarrow> real tensor \<Rightarrow> real tensor" where
  "TanhBijector_log_prob_correction self x =
     map_t (\<lambda>v. ln (1 - (tanh v)\<^sup>2 + TanhBijector.epsilon self)) x"

subsection \<open>\<^verbatim>\<open>SquashedDiagGaussianDistribution\<close>\<close>

record SquashedDiagGaussianDistribution = DiagGaussianDistribution +
  epsilon :: real
  gaussian_actions :: "real tensor option"

definition SquashedDiagGaussianDistribution_init :: "nat \<Rightarrow> real \<Rightarrow> SquashedDiagGaussianDistribution" where
  "SquashedDiagGaussianDistribution_init n eps =
     DiagGaussianDistribution.extend (DiagGaussianDistribution_init n)
       \<lparr>epsilon = eps, gaussian_actions = None\<rparr>"

definition SquashedDiagGaussianDistribution_proba_distribution ::
  "SquashedDiagGaussianDistribution \<Rightarrow> real tensor \<Rightarrow> real tensor
     \<Rightarrow> error + SquashedDiagGaussianDistribution" where
  "SquashedDiagGaussianDistribution_proba_distribution self mean ls =
     DiagGaussianDistribution_proba_distribution self mean ls"

definition SquashedDiagGaussianDistribution_log_prob ::
  "SquashedDiagGaussianDistribution \<Rightarrow> dtype \<Rightarrow> real tensor \<Rightarrow> real tensor option
     \<Rightarrow> error + real tensor" where
  "SquashedDiagGaussianDistribution_log_prob self dt actions gaussian_actions' =
     ebind (case gaussian_actions' of
              None \<Rightarrow> TanhBijector_inverse log1p dt actions
            | Some g \<Rightarrow> Inr g)
       (\<lambda>g. ebind (DiagGaussianDistribution_log_prob self g)
          (\<lambda>lp. ebind (sum_dim1 (map_t (\<lambda>a. ln (1 - a\<^sup>2
                           + SquashedDiagGaussianDistribution.epsilon self)) actions))
             (\<lambda>corr. isub lp corr)))"

definition SquashedDiagGaussianDistribution_entropy ::
  "SquashedDiagGaussianDistribution \<Rightarrow> error + real tensor option" where
  "SquashedDiagGaussianDistribution_entropy self = Inr None"

definition SquashedDiagGaussianDistribution_sample ::
  "(nat list \<Rightarrow> real tensor) \<Rightarrow> SquashedDiagGaussianDistribution
     \<Rightarrow> error + real tensor \<times> SquashedDiagGaussianDistribution" where
  "SquashedDiagGaussianDistribution_sample randn self =
     ebind (DiagGaussianDistribution_sample randn self)
       (\<lambda>g. Inr (map_t tanh g, self\<lparr>gaussian_actions := Some g\<rparr>))"

definition SquashedDiagGaussianDistribution_mode ::
  "SquashedDiagGaussianDistribution
     \<Rightarrow> error + real tensor \<times> SquashedDiagGaussianDistribution" where
  "SquashedDiagGaussianDistribution_mode self =
     ebind (DiagGaussianDistribution_mode self)
       (\<lambda>g. Inr (map_t tanh g, self\<lparr>gaussian_actions := Some g\<rparr>))"

subsection \<open>\<^verbatim>\<open>torch.distributions.Categorical\<close>\<close>

text \<open>The elementary categorical keeps its logits normalised along the last dimension;
  its probabilities are their softmax. Actions are integer tensors.\<close>

definition rows :: "nat \<Rightarrow> 'a list \<Rightarrow> 'a list list" where
  "rows n xs = map (\<lambda>i. take n (drop (i * n) xs)) [0..<length xs div n]"

definition logsumexp :: "real list \<Rightarrow> real" where
  "logsumexp r = ln (sum_list (map exp r))"

definition softmax :: "real list \<Rightarrow> real list" where
  "softmax r = map (\<lambda>x. exp x / sum_list (map exp r)) r"

record categorical =
  logits :: "real tensor"

definition Categorical :: "real tensor \<Rightarrow> error + categorical" where
  "Categorical lg =
     (if shape lg = [] then Inl ValueError
      else Inr \<lparr>logits = \<lparr>shape = shape lg,
                 data = concat (map (\<lambda>r. map (\<lambda>x. x - logsumexp r) r)
                                    (rows (last (shape lg)) (data lg)))\<rparr>\<rparr>)"

definition Categorical_probs :: "categorical \<Rightarrow> real tensor" where
  "Categorical_probs c =
     \<lparr>shape = shape (logits c),
      data = concat (map softmax (rows (last (shape (logits c))) (data (logits c))))\<rparr>"

definition Categorical_log_prob :: "categorical \<Rightarrow> int tensor \<Rightarrow> error + real tensor" where
  "Categorical_log_prob c v =
     (let n = last (shape (logits c)); bs = butlast (shape (logits c)) in
      case broadcast_shapes (shape v) bs of
        None \<Rightarrow> Inl RuntimeError
      | Some s \<Rightarrow>
          (let vs = expand_to s v;
               rs = expand_to s \<lparr>shape = bs, data = [0..<numel bs]\<rparr>
           in if list_all (\<lambda>a. 0 \<le> a \<and> a < int n) vs
              then Inr \<lparr>shape = s,
                        data = map2 (\<lambda>a r. data (logits c) ! (r * n + nat a)) vs rs\<rparr>
              else Inl RuntimeError))"

definition Categorical_entropy :: "categorical \<Rightarrow> real tensor" where
  "Categorical_entropy c =
     \<lparr>shape = butlast (shape (logits c)),
      data = map (\<lambda>r. - sum_list (map2 (\<lambda>l p. l * p) r (softmax r)))
                 (rows (last (shape (logits c))) (data (logits c)))\<rparr>"

definition Categorical_sample :: "(real tensor \<Rightarrow> int tensor) \<Rightarrow> categorical \<Rightarrow> int tensor" where
  "Categorical_sample multinomial c = multinomial (Categorical_probs c)"

fun first_index :: "('a \<Rightarrow> bool) \<Rightarrow> 'a list \<Rightarrow> nat" where
  "first_index P [] = 0"
| "first_index P (x # xs) = (if P x then 0 else Suc (first_index P xs))"

definition argmax_list :: "real list \<Rightarrow> int" where
  \<comment> \<open>the index of the first maximal entry\<close>
  "argmax_list xs = int (first_index (\<lambda>x. list_all (\<lambda>y. y \<le> x) xs) xs)"

definition argmax_dim1 :: "real tensor \<Rightarrow> error + int tensor" where
  "argmax_dim1 t =
     (case shape t of
        b # m # rest \<Rightarrow> if m = 0 then Inl IndexError else reduce_dim1 argmax_list t
      | _ \<Rightarrow> Inl IndexError)"

subsection \<open>\<^verbatim>\<open>CategoricalDistribution\<close>\<close>

record CategoricalDistribution =
  action_dim :: nat
  distribution :: "categorical option"

definition CategoricalDistribution_init :: "nat \<Rightarrow> error + CategoricalDistribution" where
  \<comment> \<open>the constructor sets its fields, prints a line and raises\<close>
  "CategoricalDistribution_init n =
     (let self = \<lparr>action_dim = n, distribution = None\<rparr>
      in Inl (Exception ''In CategoricalDistribution''))"

definition CategoricalDistribution_proba_distribution ::
  "CategoricalDistribution \<Rightarrow> real tensor \<Rightarrow> error + CategoricalDistribution" where
  "CategoricalDistribution_proba_distribution self action_logits =
     ebind (Categorical action_logits)
       (\<lambda>c. Inr (self\<lparr>CategoricalDistribution.distribution := Some c\<rparr>))"

definition CategoricalDistribution_log_prob ::
  "CategoricalDistribution \<Rightarrow> int tensor \<Rightarrow> error + real tensor" where
  "CategoricalDistribution_log_prob self actions =
     (case CategoricalDistribution.distribution self of
        None \<Rightarrow> Inl AttributeError
      | Some c \<Rightarrow> Categorical_log_prob c actions)"

definition CategoricalDistribution_entropy :: "CategoricalDistribution \<Rightarrow> error + real tensor" where
  "CategoricalDistribution_entropy self =
     (case CategoricalDistribution.distribution self of
        None \<Rightarrow> Inl AttributeError
      | Some c \<Rightarrow> Inr (Categorical_entropy c))"

definition CategoricalDistribution_sample ::
  "(real tensor \<Rightarrow> int tensor) \<Rightarrow> CategoricalDistribution \<Rightarrow> error + int tensor" where
  "CategoricalDistribution_sample multinomial self =
     (case CategoricalDistribution.distribution self of
        None \<Rightarrow> Inl AttributeError
      | Some c \<Rightarrow> Inr (Categorical_sample multinomial c))"

definition CategoricalDistribution_mode :: "CategoricalDistribution \<Rightarrow> error + int tensor" where
  "CategoricalDistribution_mode self =
     (case CategoricalDistribution.distribution self of
        None \<Rightarrow> Inl AttributeError
      | Some c \<Rightarrow> argmax_dim1 (Categorical_probs c))"

subsection \<open>Tensor operations of the masked and the composite distributions\<close>

definition min_all :: "real tensor \<Rightarrow> error + real" where
  \<comment> \<open>\<^verbatim>\<open>tensor.min()\<close> over all entries; an empty tensor has no minimum\<close>
  "min_all t = (case data t of [] \<Rightarrow> Inl RuntimeError | x # xs \<Rightarrow> Inr (fold min xs x))"

definition index_put_mask :: "real tensor \<Rightarrow> bool tensor \<Rightarrow> real \<Rightarrow> error + real tensor" where
  \<comment> \<open>\<^verbatim>\<open>t[mask] = v\<close>: the mask's shape must be a prefix of the tensor's\<close>
  "index_put_mask t msk v =
     (if shape msk = take (length (shape msk)) (shape t)
      then Inr \<lparr>shape = shape t,
                data = map (\<lambda>p. if data msk ! (p div numel (drop (length (shape msk)) (shape t)))
                                 then v else data t ! p)
                           [0..<length (data t)]\<rparr>
      else Inl IndexError)"

definition stack0 :: "'a tensor list \<Rightarrow> error + 'a tensor" where
  "stack0 ts =
     (case ts of
        [] \<Rightarrow> Inl RuntimeError
      | t # _ \<Rightarrow> if list_all (\<lambda>u. shape u = shape t) ts
                 then Inr \<lparr>shape = length ts # shape t, data = concat (map data ts)\<rparr>
                 else Inl RuntimeError)"

definition stack1 :: "'a tensor list \<Rightarrow> error + 'a tensor" where
  "stack1 ts =
     (case ts of
        [] \<Rightarrow> Inl RuntimeError
      | t # _ \<Rightarrow>
          (case shape t of
             [] \<Rightarrow> Inl IndexError
           | b # rest \<Rightarrow>
               if list_all (\<lambda>u. shape u = shape t) ts
               then Inr \<lparr>shape = b # length ts # rest,
                         data = concat (map (\<lambda>i. concat (map (\<lambda>u. take (numel rest)
                                   (drop (i * numel rest) (data u))) ts)) [0..<b])\<rparr>
               else Inl RuntimeError))"

definition unbind1 :: "'a tensor \<Rightarrow> error + 'a tensor list" where
  "unbind1 t =
     (case shape t of
        b # m # rest \<Rightarrow>
          Inr (map (\<lambda>j. \<lparr>shape = b # rest,
                         data = concat (map (\<lambda>i. take (numel rest)
                                   (drop ((i * m + j) * numel rest) (data t))) [0..<b])\<rparr>)
                   [0..<m])
      | _ \<Rightarrow> Inl IndexError)"

fun split_from :: "nat \<Rightarrow> nat list \<Rightarrow> nat \<Rightarrow> nat \<Rightarrow> nat list \<Rightarrow> 'a list \<Rightarrow> 'a tensor list" where
  "split_from off [] b m rest xs = []"
| "split_from off (n # ns) b m rest xs =
     \<lparr>shape = b # n # rest,
      data = concat (map (\<lambda>i. take (n * numel rest) (drop ((i * m + off) * numel rest) xs))
                         [0..<b])\<rparr>
     # split_from (off + n) ns b m rest xs"

definition split1 :: "'a tensor \<Rightarrow> nat list \<Rightarrow> error + 'a tensor list" where
  \<comment> \<open>\<^verbatim>\<open>th.split(t, sizes, dim=1)\<close>: the sizes must add up to the second dimension\<close>
  "split1 t sizes =
     (case shape t of
        b # m # rest \<Rightarrow>
          if sum_list sizes = m then Inr (split_from 0 sizes b m rest (data t))
          else Inl RuntimeError
      | _ \<Rightarrow> Inl IndexError)"

definition mm :: "real tensor \<Rightarrow> real tensor \<Rightarrow> error + real tensor" where
  "mm a b =
     (case (shape a, shape b) of
        ([n, k], [k', m]) \<Rightarrow>
          if k = k'
          then Inr \<lparr>shape = [n, m],
                    data = map (\<lambda>q. sum_list (map (\<lambda>l. data a ! ((q div m) * k + l)
                                                         * data b ! (l * m + q mod m)) [0..<k]))
                               [0..<n * m]\<rparr>
          else Inl RuntimeError
      | _ \<Rightarrow> Inl RuntimeError)"

definition bmm :: "real tensor \<Rightarrow> real tensor \<Rightarrow> error + real tensor" where
  "bmm a b =
     (case (shape a, shape b) of
        ([bt, n, k], [bt', k', m]) \<Rightarrow>
          if bt = bt' \<and> k = k'
          then Inr \<lparr>shape = [bt, n, m],
                    data = map (\<lambda>q. sum_list (map (\<lambda>l.
                                  data a ! (((q div (n * m)) * n + (q mod (n * m)) div m) * k + l)
                                  * data b ! (((q div (n * m)) * k + l) * m + q mod m)) [0..<k]))
                               [0..<bt * n * m]\<rparr>
          else Inl RuntimeError
      | _ \<Rightarrow> Inl RuntimeError)"

definition unsqueeze1 :: "'a tensor \<Rightarrow> error + 'a tensor" where
  "unsqueeze1 t =
     (case shape t of
        [] \<Rightarrow> Inl IndexError
      | b # rest \<Rightarrow> Inr \<lparr>shape = b # 1 # rest, data = data t\<rparr>)"

definition squeeze1 :: "'a tensor \<Rightarrow> error + 'a tensor" where
  "squeeze1 t =
     (case shape t of
        b # m # rest \<Rightarrow> Inr (if m = 1 then \<lparr>shape = b # rest, data = data t\<rparr> else t)
      | _ \<Rightarrow> Inl IndexError)"

subsection \<open>Configuration values\<close>

text \<open>The values a \<^verbatim>\<open>dist_kwargs\<close> dictionary can hold: plain Python values, a
  zero-argument callable that builds the masking layer (the layer maps an observation
  batch to a float tensor), and a one-argument function on a single observation.\<close>

datatype 'o pyval =
    PyNone
  | PyBool bool
  | PyInt int
  | PyFloat real
  | PyLayerFactory "'o list \<Rightarrow> real tensor"
  | PyFunction "'o \<Rightarrow> real tensor"

fun truthy :: "'o pyval \<Rightarrow> bool" where
  "truthy PyNone = False"
| "truthy (PyBool b) = b"
| "truthy (PyInt i) = (i \<noteq> 0)"
| "truthy (PyFloat r) = (r \<noteq> 0)"
| "truthy (PyLayerFactory f) = True"
| "truthy (PyFunction f) = True"

subsection \<open>\<^verbatim>\<open>CategoricalDistributionLimitedActions\<close>\<close>

record 'o CategoricalDistributionLimitedActions =
  action_dim :: nat
  distribution :: "categorical option"
  get_invalid_actions_layer :: "'o list \<Rightarrow> real tensor"
  get_invalid_actions_obj :: "'o pyval"
  original_action_logits :: "real tensor option"
  valid_actions :: "real tensor option"
  invalid_actions :: "bool tensor option"
  invalid_logit_value :: "real option"
  new_action_logits :: "real tensor option"

definition CategoricalDistributionLimitedActions_init ::
  "nat \<Rightarrow> 'o pyval \<Rightarrow> error + 'o CategoricalDistributionLimitedActions" where
  "CategoricalDistributionLimitedActions_init n get_invalid_actions_layer_obj =
     (case get_invalid_actions_layer_obj of
        PyNone \<Rightarrow> Inl (Exception ''get_invalid_actions_layer is none'')
      | PyLayerFactory layer \<Rightarrow>
          Inr \<lparr>action_dim = n, distribution = None,
               get_invalid_actions_layer = layer,
               get_invalid_actions_obj = get_invalid_actions_layer_obj,
               original_action_logits = None, valid_actions = None,
               invalid_actions = None, invalid_logit_value = None,
               new_action_logits = None\<rparr>
      | _ \<Rightarrow> Inl TypeError)"

definition CategoricalDistributionLimitedActions_proba_distribution ::
  "'o CategoricalDistributionLimitedActions \<Rightarrow> real tensor \<Rightarrow> 'o list option
     \<Rightarrow> error + 'o CategoricalDistributionLimitedActions" where
  "CategoricalDistributionLimitedActions_proba_distribution self action_logits obs =
     (case obs of
        None \<Rightarrow> Inl (Exception ''In get_valid_actions the observation is None'')
      | Some ob \<Rightarrow>
          (let invalid_actions_float = get_invalid_actions_layer self ob;
               invalid_actions' = map_t (\<lambda>x. x > 0) invalid_actions_float
           in ebind (min_all action_logits)
                (\<lambda>m. let invalid_logit_value' = (if m - 10 \<ge> - 10 then - 10 else m - 10)
                      in ebind (index_put_mask action_logits invalid_actions' invalid_logit_value')
                           (\<lambda>new_action_logits'.
                              ebind (Categorical new_action_logits')
                                (\<lambda>c. Inr (self\<lparr>original_action_logits := Some action_logits,
                                               invalid_actions := Some invalid_actions',
                                               invalid_logit_value := Some invalid_logit_value',
                                               new_action_logits := Some new_action_logits',
                                               distribution := Some c\<rparr>))))))"

definition CategoricalDistributionLimitedActions_log_prob ::
  "'o CategoricalDistributionLimitedActions \<Rightarrow> int tensor \<Rightarrow> error + real tensor" where
  "CategoricalDistributionLimitedActions_log_prob self actions =
     (case distribution self of
        None \<Rightarrow> Inl AttributeError
      | Some c \<Rightarrow> Categorical_log_prob c actions)"

definition CategoricalDistributionLimitedActions_entropy ::
  "'o CategoricalDistributionLimitedActions \<Rightarrow> error + real tensor" where
  "CategoricalDistributionLimitedActions_entropy self =
     (case distribution self of
        None \<Rightarrow> Inl AttributeError
      | Some c \<Rightarrow> Inr (Categorical_entropy c))"

definition CategoricalDistributionLimitedActions_sample ::
  "(real tensor \<Rightarrow> int tensor) \<Rightarrow> 'o CategoricalDistributionLimitedActions
     \<Rightarrow> error + int tensor" where
  "CategoricalDistributionLimitedActions_sample multinomial self =
     (case distribution self of
        None \<Rightarrow> Inl AttributeError
      | Some c \<Rightarrow> Inr (Categorical_sample multinomial c))"

definition CategoricalDistributionLimitedActions_mode ::
  "'o CategoricalDistributionLimitedActions \<Rightarrow> error + int tensor" where
  "CategoricalDistributionLimitedActions_mode self =
     (case distribution self of
        None \<Rightarrow> Inl AttributeError
      | Some c \<Rightarrow> argmax_dim1 (Categorical_probs c))"

subsection \<open>\<^verbatim>\<open>CategoricalDistributionLimitedActions_Manual\<close>\<close>

record 'o CategoricalDistributionLimitedActions_Manual =
  action_dim :: nat
  distribution :: "categorical option"
  get_valid_actions :: "'o pyval"
  sample_distribution :: "categorical option"

definition CategoricalDistributionLimitedActions_Manual_init ::
  "nat \<Rightarrow> 'o pyval \<Rightarrow> error + 'o CategoricalDistributionLimitedActions_Manual" where
  "CategoricalDistributionLimitedActions_Manual_init n get_valid_actions' =
     (if get_valid_actions' = PyNone then Inl (Exception ''get_valid_actions is none'')
      else Inr \<lparr>action_dim = n, distribution = None,
                get_valid_actions = get_valid_actions', sample_distribution = None\<rparr>)"

definition call1 :: "'o pyval \<Rightarrow> 'o \<Rightarrow> error + real tensor" where
  \<comment> \<open>calling a configuration value with one argument\<close>
  "call1 f x = (case f of PyFunction g \<Rightarrow> Inr (g x) | _ \<Rightarrow> Inl TypeError)"

fun emap :: "('a \<Rightarrow> error + 'b) \<Rightarrow> 'a list \<Rightarrow> error + 'b list" where
  "emap f [] = Inr []"
| "emap f (x # xs) = ebind (f x) (\<lambda>y. ebind (emap f xs) (\<lambda>ys. Inr (y # ys)))"

definition CategoricalDistributionLimitedActions_Manual_proba_distribution ::
  "'o CategoricalDistributionLimitedActions_Manual \<Rightarrow> real tensor \<Rightarrow> 'o list option
     \<Rightarrow> error + 'o CategoricalDistributionLimitedActions_Manual" where
  "CategoricalDistributionLimitedActions_Manual_proba_distribution self action_logits obs =
     (case obs of
        None \<Rightarrow> Inl (Exception ''In get_valid_actions the observation is None'')
      | Some ob \<Rightarrow>
          ebind (Categorical action_logits)
            (\<lambda>c. ebind (min_all action_logits)
               (\<lambda>m. let invalid_logit_value' = (if m - 100 \<ge> - 100 then - 100 else m - 100)
                     in ebind (emap (call1 (get_valid_actions self)) ob)
                          (\<lambda>valid_actions_list.
                             ebind (stack0 valid_actions_list)
                               (\<lambda>all_valid_actions.
                                  ebind (binop (\<lambda>z l. if z then invalid_logit_value' else l)
                                           (map_t (\<lambda>x. x = 0) all_valid_actions) action_logits)
                                    (\<lambda>new_action_logits'.
                                       ebind (Categorical new_action_logits')
                                         (\<lambda>sc. Inr (self\<lparr>distribution := Some c,
                                                         sample_distribution := Some sc\<rparr>))))))))"

definition CategoricalDistributionLimitedActions_Manual_log_prob ::
  "'o CategoricalDistributionLimitedActions_Manual \<Rightarrow> int tensor \<Rightarrow> error + real tensor" where
  "CategoricalDistributionLimitedActions_Manual_log_prob self actions =
     (case distribution self of
        None \<Rightarrow> Inl AttributeError
      | Some c \<Rightarrow> Categorical_log_prob c actions)"

definition CategoricalDistributionLimitedActions_Manual_entropy ::
  "'o CategoricalDistributionLimitedActions_Manual \<Rightarrow> error + real tensor" where
  "CategoricalDistributionLimitedActions_Manual_entropy self =
     (case distribution self of
        None \<Rightarrow> Inl AttributeError
      | Some c \<Rightarrow> Inr (Categorical_entropy c))"

definition CategoricalDistributionLimitedActions_Manual_sample ::
  "(real tensor \<Rightarrow> int tensor) \<Rightarrow> 'o CategoricalDistributionLimitedActions_Manual
     \<Rightarrow> error + int tensor" where
  \<comment> \<open>after the draw the source tests \<^verbatim>\<open>logits[0][ret] < -9.5\<close> in an \<^verbatim>\<open>if\<close>: the
      indexing must succeed and the comparison must have exactly one entry\<close>
  "CategoricalDistributionLimitedActions_Manual_sample multinomial self =
     (case sample_distribution self of
        None \<Rightarrow> Inl AttributeError
      | Some sc \<Rightarrow>
          (let ret = Categorical_sample multinomial sc in
           case shape (logits sc) of
             b # n # rest \<Rightarrow>
               if b = 0 \<or> \<not> list_all (\<lambda>a. - int n \<le> a \<and> a < int n) (data ret)
               then Inl IndexError
               else if numel (shape ret) * numel rest = 1 then Inr ret
               else Inl RuntimeError
           | _ \<Rightarrow> Inl IndexError))"

definition CategoricalDistributionLimitedActions_Manual_mode ::
  "'o CategoricalDistributionLimitedActions_Manual \<Rightarrow> error + int tensor" where
  "CategoricalDistributionLimitedActions_Manual_mode self =
     (case sample_distribution self of
        None \<Rightarrow> Inl AttributeError
      | Some sc \<Rightarrow> argmax_dim1 (Categorical_probs sc))"

subsection \<open>\<^verbatim>\<open>MultiCategoricalDistribution\<close>\<close>

record MultiCategoricalDistribution =
  action_dims :: "nat list"
  distribution :: "categorical list option"

definition MultiCategoricalDistribution_init :: "nat list \<Rightarrow> MultiCategoricalDistribution" where
  "MultiCategoricalDistribution_init ns = \<lparr>action_dims = ns, distribution = None\<rparr>"

definition MultiCategoricalDistribution_proba_distribution ::
  "MultiCategoricalDistribution \<Rightarrow> real tensor \<Rightarrow> error + MultiCategoricalDistribution" where
  "MultiCategoricalDistribution_proba_distribution self action_logits =
     ebind (split1 action_logits (action_dims self))
       (\<lambda>splits. ebind (emap Categorical splits)
          (\<lambda>cs. Inr (self\<lparr>distribution := Some cs\<rparr>)))"

definition MultiCategoricalDistribution_log_prob ::
  "MultiCategoricalDistribution \<Rightarrow> int tensor \<Rightarrow> error + real tensor" where
  "MultiCategoricalDistribution_log_prob self actions =
     ebind (unbind1 actions)
       (\<lambda>acts. case distribution self of
          None \<Rightarrow> Inl TypeError
        | Some cs \<Rightarrow>
            ebind (emap (\<lambda>(dist, action). Categorical_log_prob dist action) (zip cs acts))
              (\<lambda>lps. ebind (stack1 lps) sum_dim1))"

definition MultiCategoricalDistribution_entropy ::
  "MultiCategoricalDistribution \<Rightarrow> error + real tensor" where
  "MultiCategoricalDistribution_entropy self =
     (case distribution self of
        None \<Rightarrow> Inl TypeError
      | Some cs \<Rightarrow> ebind (stack1 (map Categorical_entropy cs)) sum_dim1)"

definition MultiCategoricalDistribution_sample ::
  "(real tensor \<Rightarrow> int tensor) \<Rightarrow> MultiCategoricalDistribution \<Rightarrow> error + int tensor" where
  "MultiCategoricalDistribution_sample multinomial self =
     (case distribution self of
        None \<Rightarrow> Inl TypeError
      | Some cs \<Rightarrow> stack1 (map (Categorical_sample multinomial) cs))"

definition MultiCategoricalDistribution_mode ::
  "MultiCategoricalDistribution \<Rightarrow> error + int tensor" where
  "MultiCategoricalDistribution_mode self =
     (case distribution self of
        None \<Rightarrow> Inl TypeError
      | Some cs \<Rightarrow> ebind (emap (\<lambda>dist. argmax_dim1 (Categorical_probs dist)) cs) stack1)"

subsection \<open>\<^verbatim>\<open>torch.distributions.Bernoulli\<close> and \<^verbatim>\<open>BernoulliDistribution\<close>\<close>

record bernoulli =
  logits :: "real tensor"

definition sigmoid :: "real \<Rightarrow> real" where
  "sigmoid l = 1 / (1 + exp (- l))"

definition Bernoulli_probs :: "bernoulli \<Rightarrow> real tensor" where
  "Bernoulli_probs d = map_t sigmoid (bernoulli.logits d)"

definition Bernoulli_log_prob :: "bernoulli \<Rightarrow> real tensor \<Rightarrow> error + real tensor" where
  "Bernoulli_log_prob d v = binop (\<lambda>l x. x * l - ln (1 + exp l)) (bernoulli.logits d) v"

definition Bernoulli_entropy :: "bernoulli \<Rightarrow> real tensor" where
  "Bernoulli_entropy d = map_t (\<lambda>l. ln (1 + exp l) - sigmoid l * l) (bernoulli.logits d)"

definition round_half_even :: "real \<Rightarrow> real" where
  \<comment> \<open>\<^verbatim>\<open>th.round\<close> rounds a tie to the even neighbour\<close>
  "round_half_even x =
     (if x - of_int \<lfloor>x\<rfloor> < 1 / 2 then of_int \<lfloor>x\<rfloor>
      else if x - of_int \<lfloor>x\<rfloor> > 1 / 2 then of_int \<lfloor>x\<rfloor> + 1
      else if even \<lfloor>x\<rfloor> then of_int \<lfloor>x\<rfloor> else of_int \<lfloor>x\<rfloor> + 1)"

record BernoulliDistribution =
  action_dims :: nat
  distribution :: "bernoulli option"

definition BernoulliDistribution_init :: "nat \<Rightarrow> BernoulliDistribution" where
  "BernoulliDistribution_init n = \<lparr>action_dims = n, distribution = None\<rparr>"

definition BernoulliDistribution_proba_distribution ::
  "BernoulliDistribution \<Rightarrow> real tensor \<Rightarrow> error + BernoulliDistribution" where
  "BernoulliDistribution_proba_distribution self action_logits =
     Inr (self\<lparr>distribution := Some \<lparr>logits = action_logits\<rparr>\<rparr>)"

definition BernoulliDistribution_log_prob ::
  "BernoulliDistribution \<Rightarrow> real tensor \<Rightarrow> error + real tensor" where
  "BernoulliDistribution_log_prob self actions =
     (case distribution self of
        None \<Rightarrow> Inl AttributeError
      | Some d \<Rightarrow> ebind (Bernoulli_log_prob d actions) sum_dim1)"

definition BernoulliDistribution_entropy :: "BernoulliDistribution \<Rightarrow> error + real tensor" where
  "BernoulliDistribution_entropy self =
     (case distribution self of
        None \<Rightarrow> Inl AttributeError
      | Some d \<Rightarrow> sum_dim1 (Bernoulli_entropy d))"

definition BernoulliDistribution_sample ::
  "(real tensor \<Rightarrow> real tensor) \<Rightarrow> BernoulliDistribution \<Rightarrow> error + real tensor" where
  "BernoulliDistribution_sample bern self =
     (case distribution self of
        None \<Rightarrow> Inl AttributeError
      | Some d \<Rightarrow> Inr (bern (Bernoulli_probs d)))"

definition BernoulliDistribution_mode :: "BernoulliDistribution \<Rightarrow> error + real tensor" where
  "BernoulliDistribution_mode self =
     (case distribution self of
        None \<Rightarrow> Inl AttributeError
      | Some d \<Rightarrow> Inr (map_t round_half_even (Bernoulli_probs d)))"

subsection \<open>\<^verbatim>\<open>StateDependentNoiseDistribution\<close>\<close>

record StateDependentNoiseDistribution =
  action_dim :: nat
  latent_sde_dim :: "nat option"
  mean_actions :: "real tensor option"
  log_std :: "real tensor option"
  weights_dist :: "normal option"
  exploration_mat :: "real tensor option"
  exploration_matrices :: "real tensor option"
  latent_sde :: "real tensor option"
  use_expln :: bool
  full_std :: bool
  epsilon :: real
  learn_features :: bool
  bijector :: "TanhBijector option"
  distribution :: "normal option"

definition StateDependentNoiseDistribution_init ::
  "nat \<Rightarrow> bool \<Rightarrow> bool \<Rightarrow> bool \<Rightarrow> bool \<Rightarrow> real \<Rightarrow> StateDependentNoiseDistribution" where
  "StateDependentNoiseDistribution_init n full_std' use_expln' squash_output learn_features' eps =
     \<lparr>action_dim = n, latent_sde_dim = None, mean_actions = None, log_std = None,
      weights_dist = None, exploration_mat = None, exploration_matrices = None,
      latent_sde = None, use_expln = use_expln', full_std = full_std', epsilon = eps,
      learn_features = learn_features',
      bijector = (if squash_output then Some (TanhBijector_init eps) else None),
      distribution = None\<rparr>"

text \<open>The entries of the standard deviation are floating-point values: a real
  number, an infinity or NaN. \<^verbatim>\<open>th.exp\<close> of an entry overflows to infinity when the
  exact value is above the largest finite number of the dtype, and is zero when the
  exact value is at most half the smallest positive number of the dtype; between the
  two the exact value is kept (rounding is not modelled). \<open>finfo_max\<close> and
  \<open>smallest_subnormal\<close> are the tables of \<^verbatim>\<open>torch.finfo(dtype).max\<close> and
  \<^verbatim>\<open>torch.finfo(dtype).smallest_subnormal\<close>; an integer tensor is computed in
  float32. Sums and products follow IEEE 754 on infinities and NaN (\<open>inf * 0\<close> is
  NaN); finite sums and products are exact. The entries of \<^verbatim>\<open>log_std\<close> itself and
  \<^verbatim>\<open>epsilon\<close> are finite.\<close>

datatype fl = Fin real | PInf | NInf | NaN

fun finfo_max :: "dtype \<Rightarrow> real" where
  "finfo_max Float16 = 65504"
| "finfo_max BFloat16 = (2 - 1 / 2 ^ 7) * 2 ^ 127"
| "finfo_max Float32 = (2 - 1 / 2 ^ 23) * 2 ^ 127"
| "finfo_max Float64 = (2 - 1 / 2 ^ 52) * 2 ^ 1023"
| "finfo_max Int64 = (2 - 1 / 2 ^ 23) * 2 ^ 127"

fun smallest_subnormal :: "dtype \<Rightarrow> real" where
  "smallest_subnormal Float16 = 1 / 2 ^ 24"
| "smallest_subnormal BFloat16 = 1 / 2 ^ 133"
| "smallest_subnormal Float32 = 1 / 2 ^ 149"
| "smallest_subnormal Float64 = 1 / 2 ^ 1074"
| "smallest_subnormal Int64 = 1 / 2 ^ 149"





definition th_exp :: "dtype \<Rightarrow> real \<Rightarrow> fl" where
  "th_exp dt x =
     (if finfo_max dt < exp x then PInf
      else if exp x \<le> smallest_subnormal dt / 2 then Fin 0
      else Fin (exp x))"


definition StateDependentNoiseDistribution_log_prob ::
  "StateDependentNoiseDistribution \<Rightarrow> dtype \<Rightarrow> real tensor \<Rightarrow> error + real tensor" where
  "StateDependentNoiseDistribution_log_prob self dt actions =
     ebind (case bijector self of
              Some bj \<Rightarrow> TanhBijector_inverse log1p dt actions
            | None \<Rightarrow> Inr actions)
       (\<lambda>g. case distribution self of
          None \<Rightarrow> Inl AttributeError
        | Some n \<Rightarrow>
            ebind (Normal_log_prob n g)
              (\<lambda>lp0. ebind (sum_independent_dims lp0)
                 (\<lambda>lp. case bijector self of
                    Some bj \<Rightarrow>
                      ebind (sum_dim1 (TanhBijector_log_prob_correction bj g)) (isub lp)
                  | None \<Rightarrow> Inr lp)))"

definition StateDependentNoiseDistribution_entropy ::
  "StateDependentNoiseDistribution \<Rightarrow> error + real tensor option" where
  "StateDependentNoiseDistribution_entropy self =
     (case bijector self of
        Some bj \<Rightarrow> Inr None
      | None \<Rightarrow>
          (case distribution self of
             None \<Rightarrow> Inl AttributeError
           | Some n \<Rightarrow> ebind (sum_independent_dims (Normal_entropy n)) (\<lambda>e. Inr (Some e))))"

definition StateDependentNoiseDistribution_get_noise ::
  "StateDependentNoiseDistribution \<Rightarrow> real tensor option \<Rightarrow> error + real tensor" where
  "StateDependentNoiseDistribution_get_noise self latent' =
     (case latent' of
        None \<Rightarrow> if learn_features self then Inl TypeError else Inl AttributeError
      | Some latent \<Rightarrow>
          (case shape latent of
             [] \<Rightarrow> Inl TypeError
           | n # _ \<Rightarrow>
               (let use_mat = (case exploration_mat self of
                                 None \<Rightarrow> Inl TypeError
                               | Some mat \<Rightarrow> mm latent mat)
                in if n = 1 then use_mat
                   else (case exploration_matrices self of
                           None \<Rightarrow> Inl TypeError
                         | Some mats \<Rightarrow>
                             (case shape mats of
                                [] \<Rightarrow> Inl TypeError
                              | k # _ \<Rightarrow>
                                  if n \<noteq> k then use_mat
                                  else ebind (unsqueeze1 latent)
                                         (\<lambda>l3. ebind (bmm l3 mats) squeeze1))))))"

definition StateDependentNoiseDistribution_sample ::
  "StateDependentNoiseDistribution \<Rightarrow> error + real tensor" where
  "StateDependentNoiseDistribution_sample self =
     ebind (StateDependentNoiseDistribution_get_noise self (latent_sde self))
       (\<lambda>noise. case distribution self of
          None \<Rightarrow> Inl AttributeError
        | Some n \<Rightarrow>
            ebind (binop (\<lambda>m x. m + x) (loc n) noise)
              (\<lambda>actions. case bijector self of
                 Some bj \<Rightarrow> Inr (TanhBijector_forward actions)
               | None \<Rightarrow> Inr actions))"

definition StateDependentNoiseDistribution_mode ::
  "StateDependentNoiseDistribution \<Rightarrow> error + real tensor" where
  "StateDependentNoiseDistribution_mode self =
     (case distribution self of
        None \<Rightarrow> Inl AttributeError
      | Some n \<Rightarrow>
          (case bijector self of
             Some bj \<Rightarrow> Inr (TanhBijector_forward (loc n))
           | None \<Rightarrow> Inr (loc n)))"

subsection \<open>The factory \<^verbatim>\<open>make_proba_distribution\<close>\<close>

text \<open>Modelled from the spec: \<^verbatim>\<open>get_action_dim\<close> lives in the preprocessing module,
  which is not part of the sources; the spec's descriptor \<^verbatim>\<open>Continuous(dim)\<close> carries
  the dimension it returns, so \<open>Box\<close> holds that dimension.\<close>

datatype action_space =
    Box nat
  | Discrete nat
  | MultiDiscrete "nat list"
  | MultiBinary nat
  | OtherSpace

fun get_action_dim :: "action_space \<Rightarrow> nat" where
  "get_action_dim (Box d) = d"
| "get_action_dim _ = 0"

fun is_Box :: "action_space \<Rightarrow> bool" where
  "is_Box (Box d) = True"
| "is_Box _ = False"

fun is_Discrete :: "action_space \<Rightarrow> bool" where
  "is_Discrete (Discrete n) = True"
| "is_Discrete _ = False"

fun is_MultiDiscrete :: "action_space \<Rightarrow> bool" where
  "is_MultiDiscrete (MultiDiscrete ns) = True"
| "is_MultiDiscrete _ = False"

fun is_MultiBinary :: "action_space \<Rightarrow> bool" where
  "is_MultiBinary (MultiBinary n) = True"
| "is_MultiBinary _ = False"

fun space_n :: "action_space \<Rightarrow> nat" where
  "space_n (Discrete n) = n"
| "space_n (MultiBinary n) = n"
| "space_n _ = 0"

fun space_nvec :: "action_space \<Rightarrow> nat list" where
  "space_nvec (MultiDiscrete ns) = ns"
| "space_nvec _ = []"

datatype 'o Distribution =
    DiagGaussianDistribution_obj DiagGaussianDistribution
  | SquashedDiagGaussianDistribution_obj SquashedDiagGaussianDistribution
  | CategoricalDistribution_obj CategoricalDistribution
  | CategoricalDistributionLimitedActions_obj "'o CategoricalDistributionLimitedActions"
  | CategoricalDistributionLimitedActions_Manual_obj "'o CategoricalDistributionLimitedActions_Manual"
  | MultiCategoricalDistribution_obj MultiCategoricalDistribution
  | BernoulliDistribution_obj BernoulliDistribution
  | StateDependentNoiseDistribution_obj StateDependentNoiseDistribution

type_synonym 'o kwargs = "(string \<times> 'o pyval) list"

definition dict_get :: "'o kwargs \<Rightarrow> string \<Rightarrow> 'o pyval" where
  "dict_get kw k = (case map_of kw k of None \<Rightarrow> PyNone | Some v \<Rightarrow> v)"

definition dict_del :: "'o kwargs \<Rightarrow> string \<Rightarrow> 'o kwargs" where
  "dict_del kw k = filter (\<lambda>(k', v). k' \<noteq> k) kw"

text \<open>Calling a class with \<^verbatim>\<open>**dist_kwargs\<close>: a key that is no keyword parameter of the
  constructor, or that names a parameter already given by position, is a
  \<^verbatim>\<open>TypeError\<close>. The boolean flags of the gSDE constructor are read by their truth
  value, as the source's \<^verbatim>\<open>if\<close> statements do; a non-numeric \<^verbatim>\<open>epsilon\<close> is rejected
  here, where Python would fail at its first use.\<close>

fun as_float :: "'o pyval \<Rightarrow> real option" where
  "as_float (PyFloat r) = Some r"
| "as_float (PyInt i) = Some (of_int i)"
| "as_float (PyBool b) = Some (of_bool b)"
| "as_float _ = None"

definition flag :: "'o kwargs \<Rightarrow> string \<Rightarrow> bool \<Rightarrow> bool" where
  "flag kw k dflt = (case map_of kw k of None \<Rightarrow> dflt | Some v \<Rightarrow> truthy v)"

definition new_DiagGaussianDistribution :: "nat \<Rightarrow> 'o kwargs \<Rightarrow> error + 'o Distribution" where
  "new_DiagGaussianDistribution n kw =
     (if kw = [] then Inr (DiagGaussianDistribution_obj (DiagGaussianDistribution_init n))
      else Inl TypeError)"

definition new_StateDependentNoiseDistribution :: "nat \<Rightarrow> 'o kwargs \<Rightarrow> error + 'o Distribution" where
  "new_StateDependentNoiseDistribution n kw =
     (if list_all (\<lambda>(k, v). k \<in> set [''full_std'', ''use_expln'', ''squash_output'',
                                       ''learn_features'', ''epsilon'']) kw
      then (case (case map_of kw ''epsilon'' of None \<Rightarrow> Some (1 / 10 ^ 6) | Some v \<Rightarrow> as_float v) of
              None \<Rightarrow> Inl TypeError
            | Some eps \<Rightarrow>
                Inr (StateDependentNoiseDistribution_obj
                       (StateDependentNoiseDistribution_init n
                          (flag kw ''full_std'' True) (flag kw ''use_expln'' False)
                          (flag kw ''squash_output'' False) (flag kw ''learn_features'' False)
                          eps)))
      else Inl TypeError)"

definition new_CategoricalDistributionLimitedActions ::
  "nat \<Rightarrow> 'o pyval \<Rightarrow> 'o kwargs \<Rightarrow> error + 'o Distribution" where
  "new_CategoricalDistributionLimitedActions n layer kw =
     (if kw = []
      then ebind (CategoricalDistributionLimitedActions_init n layer)
             (\<lambda>d. Inr (CategoricalDistributionLimitedActions_obj d))
      else Inl TypeError)"

definition new_CategoricalDistribution :: "nat \<Rightarrow> 'o kwargs \<Rightarrow> error + 'o Distribution" where
  "new_CategoricalDistribution n kw =
     (if kw = []
      then ebind (CategoricalDistribution_init n) (\<lambda>d. Inr (CategoricalDistribution_obj d))
      else Inl TypeError)"

definition new_MultiCategoricalDistribution :: "nat list \<Rightarrow> 'o kwargs \<Rightarrow> error + 'o Distribution" where
  "new_MultiCategoricalDistribution ns kw =
     (if kw = [] then Inr (MultiCategoricalDistribution_obj (MultiCategoricalDistribution_init ns))
      else Inl TypeError)"

definition new_BernoulliDistribution :: "nat \<Rightarrow> 'o kwargs \<Rightarrow> error + 'o Distribution" where
  "new_BernoulliDistribution n kw =
     (if kw = [] then Inr (BernoulliDistribution_obj (BernoulliDistribution_init n))
      else Inl TypeError)"

definition make_proba_distribution ::
  "action_space \<Rightarrow> bool \<Rightarrow> 'o kwargs option \<Rightarrow> error + 'o Distribution" where
  "make_proba_distribution action_space use_sde dist_kwargs =
     (let kw = (case dist_kwargs of None \<Rightarrow> [] | Some k \<Rightarrow> k);
          use_limited_actions =
            (dict_get kw ''get_valid_actions'' \<noteq> PyNone
             \<or> truthy (dict_get kw ''get_invalid_actions_layer''))
      in if is_Box action_space
         then (if use_sde then new_StateDependentNoiseDistribution (get_action_dim action_space) kw
               else new_DiagGaussianDistribution (get_action_dim action_space) kw)
         else if is_Discrete action_space \<and> use_limited_actions
         then (case map_of kw ''get_invalid_actions_layer'' of
                 None \<Rightarrow> Inl KeyError
               | Some get_invalid_actions_layer' \<Rightarrow>
                   new_CategoricalDistributionLimitedActions (space_n action_space)
                     get_invalid_actions_layer' (dict_del kw ''get_invalid_actions_layer''))
         else if is_Discrete action_space \<and> use_limited_actions
         then (case map_of kw ''get_valid_actions'' of
                 None \<Rightarrow> Inl KeyError
               | Some get_valid_actions' \<Rightarrow>
                   new_CategoricalDistributionLimitedActions (space_n action_space)
                     get_valid_actions' (dict_del kw ''get_valid_actions''))
         else if is_Discrete action_space
         then new_CategoricalDistribution (space_n action_space) kw
         else if is_MultiDiscrete action_space
         then new_MultiCategoricalDistribution (space_nvec action_space) kw
         else if is_MultiBinary action_space
         then new_BernoulliDistribution (space_n action_space) kw
         else Inl NotImplementedError)"

subsection \<open>\<^verbatim>\<open>kl_divergence\<close>\<close>

fun class_of :: "'o Distribution \<Rightarrow> string" where
  "class_of (DiagGaussianDistribution_obj d) = ''DiagGaussianDistribution''"
| "class_of (SquashedDiagGaussianDistribution_obj d) = ''SquashedDiagGaussianDistribution''"
| "class_of (CategoricalDistribution_obj d) = ''CategoricalDistribution''"
| "class_of (CategoricalDistributionLimitedActions_obj d) = ''CategoricalDistributionLimitedActions''"
| "class_of (CategoricalDistributionLimitedActions_Manual_obj d) =
     ''CategoricalDistributionLimitedActions_Manual''"
| "class_of (MultiCategoricalDistribution_obj d) = ''MultiCategoricalDistribution''"
| "class_of (BernoulliDistribution_obj d) = ''BernoulliDistribution''"
| "class_of (StateDependentNoiseDistribution_obj d) = ''StateDependentNoiseDistribution''"

text \<open>The elementary distribution an instance holds in its \<^verbatim>\<open>distribution\<close> attribute,
  and \<^verbatim>\<open>torch.distributions.kl_divergence\<close> on the pairs PyTorch registers.\<close>

datatype elementary =
    ENone
  | ENormal normal
  | ECategorical categorical
  | EBernoulli bernoulli
  | EList "categorical list"

fun opt_elem :: "('a \<Rightarrow> elementary) \<Rightarrow> 'a option \<Rightarrow> elementary" where
  "opt_elem f None = ENone"
| "opt_elem f (Some x) = f x"

fun distribution_of :: "'o Distribution \<Rightarrow> elementary" where
  "distribution_of (DiagGaussianDistribution_obj d) =
     opt_elem ENormal (DiagGaussianDistribution.distribution d)"
| "distribution_of (SquashedDiagGaussianDistribution_obj d) =
     opt_elem ENormal (DiagGaussianDistribution.distribution d)"
| "distribution_of (CategoricalDistribution_obj d) =
     opt_elem ECategorical (CategoricalDistribution.distribution d)"
| "distribution_of (CategoricalDistributionLimitedActions_obj d) =
     opt_elem ECategorical (CategoricalDistributionLimitedActions.distribution d)"
| "distribution_of (CategoricalDistributionLimitedActions_Manual_obj d) =
     opt_elem ECategorical (CategoricalDistributionLimitedActions_Manual.distribution d)"
| "distribution_of (MultiCategoricalDistribution_obj d) =
     opt_elem EList (MultiCategoricalDistribution.distribution d)"
| "distribution_of (BernoulliDistribution_obj d) =
     opt_elem EBernoulli (BernoulliDistribution.distribution d)"
| "distribution_of (StateDependentNoiseDistribution_obj d) =
     opt_elem ENormal (StateDependentNoiseDistribution.distribution d)"

definition tzip :: "'a tensor \<Rightarrow> 'b tensor \<Rightarrow> ('a \<times> 'b) tensor" where
  "tzip a b = \<lparr>shape = shape a, data = zip (data a) (data b)\<rparr>"

definition sum_last :: "real tensor \<Rightarrow> real tensor" where
  "sum_last t = \<lparr>shape = butlast (shape t), data = map sum_list (rows (last (shape t)) (data t))\<rparr>"

fun torch_kl :: "elementary \<Rightarrow> elementary \<Rightarrow> error + real tensor" where
  "torch_kl (ENormal p) (ENormal q) =
     binop (\<lambda>(pl, ps) (ql, qs). 0.5 * ((ps / qs)\<^sup>2 + ((pl - ql) / qs)\<^sup>2 - 1 - ln ((ps / qs)\<^sup>2)))
       (tzip (loc p) (scale p)) (tzip (loc q) (scale q))"
| "torch_kl (ECategorical p) (ECategorical q) =
     ebind (binop (\<lambda>(pp, pl) ql. pp * (pl - ql))
              (tzip (Categorical_probs p) (categorical.logits p)) (categorical.logits q))
       (\<lambda>t. Inr (sum_last t))"
| "torch_kl (EBernoulli p) (EBernoulli q) =
     binop (\<lambda>lp lq. sigmoid lp * (ln (sigmoid lp) - ln (sigmoid lq))
                     + (1 - sigmoid lp) * (ln (1 - sigmoid lp) - ln (1 - sigmoid lq)))
       (bernoulli.logits p) (bernoulli.logits q)"
| "torch_kl _ _ = Inl NotImplementedError"

definition isclose :: "real \<Rightarrow> real \<Rightarrow> bool" where
  \<comment> \<open>numpy's default tolerances\<close>
  "isclose x y = (\<bar>x - y\<bar> \<le> 1 / 10 ^ 8 + (1 / 10 ^ 5) * \<bar>y\<bar>)"

definition np_allclose :: "real list \<Rightarrow> real list \<Rightarrow> error + bool" where
  \<comment> \<open>\<^verbatim>\<open>np.allclose\<close> on one-dimensional arrays: an array of length 1 is broadcast\<close>
  "np_allclose a b =
     (if length a = length b then Inr (list_all (\<lambda>(x, y). isclose x y) (zip a b))
      else (case a of
              [x] \<Rightarrow> Inr (list_all (\<lambda>y. isclose x y) b)
            | _ \<Rightarrow> (case b of
                      [y] \<Rightarrow> Inr (list_all (\<lambda>x. isclose x y) a)
                    | _ \<Rightarrow> Inl ValueError)))"

definition kl_divergence :: "'o Distribution \<Rightarrow> 'o Distribution \<Rightarrow> error + real tensor" where
  "kl_divergence dist_true dist_pred =
     (if class_of dist_true \<noteq> class_of dist_pred then Inl AssertionError
      else case (dist_pred, dist_true) of
             (MultiCategoricalDistribution_obj q, MultiCategoricalDistribution_obj p) \<Rightarrow>
               ebind (np_allclose (map real (MultiCategoricalDistribution.action_dims q))
                                  (map real (MultiCategoricalDistribution.action_dims p)))
                 (\<lambda>same. if \<not> same then Inl AssertionError
                          else (case (MultiCategoricalDistribution.distribution p,
                                      MultiCategoricalDistribution.distribution q) of
                                  (Some ps, Some qs) \<Rightarrow>
                                    ebind (emap (\<lambda>(p', q'). torch_kl (ECategorical p') (ECategorical q'))
                                             (zip ps qs))
                                      (\<lambda>kls. ebind (stack1 kls) sum_dim1)
                                | _ \<Rightarrow> Inl TypeError))
           | _ \<Rightarrow> torch_kl (distribution_of dist_true) (distribution_of dist_pred))"

subsection \<open>Sequencing of results\<close>

lemma ebind_Inr [simp]: "ebind (Inr x) f = f x"
  by (simp add: ebind_def)

lemma ebind_Inl [simp]: "ebind (Inl e) f = Inl e"
  by (simp add: ebind_def)

subsection \<open>Broadcasting of equal shapes\<close>

lemma bshape_rev_same: "bshape_rev s s = Some s"
  by (induction s) auto

lemma broadcast_shapes_same [simp]: "broadcast_shapes s s = Some s"
  by (simp add: broadcast_shapes_def bshape_rev_same)

lemma concat_chunks: "length xs = d * k \<Longrightarrow> concat (map (\<lambda>i. take k (drop (i * k) xs)) [0..<d]) = xs"
proof (induction d arbitrary: xs rule: nat.induct)
  case zero
  then show ?case by simp
next
  case (Suc d)
  have "concat (map (\<lambda>i. take k (drop (i * k) xs)) [0..<Suc d]) =
        concat (map (\<lambda>i. take k (drop (i * k) xs)) [0..<d]) @ take k (drop (d * k) xs)"
    by simp
  also have "concat (map (\<lambda>i. take k (drop (i * k) xs)) [0..<d]) =
        concat (map (\<lambda>i. take k (drop (i * k) (take (d * k) xs))) [0..<d])"
  proof -
    have "\<And>i. i < d \<Longrightarrow> take k (drop (i * k) (take (d * k) xs)) = take k (drop (i * k) xs)"
    proof -
      fix i assume "i < d"
      then have "i * k + k \<le> d * k"
        by (metis Suc_leI add.commute mult_Suc mult_le_mono1)
      then show "take k (drop (i * k) (take (d * k) xs)) = take k (drop (i * k) xs)"
        by (simp add: drop_take min_def)
    qed
    then show ?thesis by (auto intro!: arg_cong[where f=concat])
  qed
  also have "\<dots> = take (d * k) xs"
    using Suc.IH[of "take (d * k) xs"] Suc.prems by simp
  also have "take (d * k) xs @ take k (drop (d * k) xs) = xs"
    using Suc.prems by (simp add: take_add[symmetric])
  finally show ?case .
qed

lemma expand_same: "length xs = numel s \<Longrightarrow> expand s s xs = xs"
proof (induction s arbitrary: xs)
  case Nil
  then show ?case by simp
next
  case (Cons d ds)
  have len: "length xs = d * numel ds" using Cons.prems by (simp add: numel_def)
  have "\<And>i. i < d \<Longrightarrow> expand ds ds (take (numel ds) (drop (i * numel ds) xs)) = take (numel ds) (drop (i * numel ds) xs)"
  proof -
    fix i assume "i < d"
    then have "i * numel ds + numel ds \<le> d * numel ds"
      by (metis Suc_leI add.commute mult_Suc mult_le_mono1)
    then have "length (take (numel ds) (drop (i * numel ds) xs)) = numel ds"
      using len by simp
    then show "expand ds ds (take (numel ds) (drop (i * numel ds) xs)) = take (numel ds) (drop (i * numel ds) xs)"
      by (rule Cons.IH)
  qed
  then have "expand (d # ds) (d # ds) xs = concat (map (\<lambda>i. take (numel ds) (drop (i * numel ds) xs)) [0..<d])"
    by (auto intro!: arg_cong[where f=concat])
  then show ?case using concat_chunks[OF len] by simp
qed

lemma binop_same_shape:
  assumes "shape a = shape b" "wf_tensor a" "wf_tensor b"
  shows "binop f a b = Inr \<lparr>shape = shape a, data = map2 f (data a) (data b)\<rparr>"
  using assms by (simp add: binop_def expand_to_def expand_same wf_tensor_def)

subsection \<open>\<^verbatim>\<open>sum_independent_dims\<close> and the Gaussian log-probability\<close>

lemma sum_list_upt_sum: "sum_list (map f [0..<n]) = (\<Sum>i<n. f i)"
  by (simp add: interv_sum_list_conv_sum_set_nat atLeast0LessThan)

lemma map2_nth_upt:
  "length xs = n \<Longrightarrow> length ys = n \<Longrightarrow> map2 f xs ys = map (\<lambda>i. f (xs ! i) (ys ! i)) [0..<n]"
  by (auto intro!: nth_equalityI)

lemma div_mod_block: "k < (c::nat) \<Longrightarrow> (i * c + k) div c = i \<and> (i * c + k) mod c = k"
  by simp

lemma block_index_less: "i < (b::nat) \<Longrightarrow> k < c \<Longrightarrow> i * c + k < b * c"
proof -
  assume a: "i < b" "k < c"
  then have "i * c + k < i * c + c" by simp
  also have "\<dots> = Suc i * c" by simp
  also have "\<dots> \<le> b * c" using a(1) by (intro mult_le_mono1) simp
  finally show ?thesis .
qed

lemma reduce_dim1_nth:
  assumes "shape t = b # m # rest" "i < b" "k < numel rest"
  shows "\<exists>r. reduce_dim1 f t = Inr r \<and> shape r = b # rest \<and> length (data r) = b * numel rest
           \<and> data r ! (i * numel rest + k) = f (map (\<lambda>j. data t ! ((i * m + j) * numel rest + k)) [0..<m])"
  using assms block_index_less[of i b k "numel rest"]
  by (simp add: reduce_dim1_def div_mod_block)

lemma sum_independent_dims_rank1:
  "shape t = [n] \<Longrightarrow> sum_independent_dims t = Inr \<lparr>shape = [], data = [sum_list (data t)]\<rparr>"
  by (simp add: sum_independent_dims_def sum_all_def scalar_def)

lemma sum_independent_dims_batch:
  assumes "shape t = b # m # rest"
  shows "\<exists>r. sum_independent_dims t = Inr r \<and> shape r = b # rest
           \<and> length (data r) = b * numel rest
           \<and> (\<forall>i<b. \<forall>k<numel rest. data r ! (i * numel rest + k)
                  = (\<Sum>j<m. data t ! ((i * m + j) * numel rest + k)))"
proof -
  define r where "r = \<lparr>shape = b # rest,
      data = map (\<lambda>q. sum_list (map (\<lambda>j. data t ! (((q div numel rest) * m + j) * numel rest
                                                    + q mod numel rest)) [0..<m]))
                          [0..<b * numel rest]\<rparr>"
  have r: "reduce_dim1 sum_list t = Inr r" "shape r = b # rest"
      "length (data r) = b * numel rest"
      "data r = map (\<lambda>q. sum_list (map (\<lambda>j. data t ! (((q div numel rest) * m + j) * numel rest
                                                    + q mod numel rest)) [0..<m]))
                          [0..<b * numel rest]"
    using assms by (simp_all add: reduce_dim1_def r_def)
  have "data r ! (i * numel rest + k) = (\<Sum>j<m. data t ! ((i * m + j) * numel rest + k))"
    if "i < b" "k < numel rest" for i k
    using that r(4) block_index_less[of i b k "numel rest"]
    by (simp add: div_mod_block sum_list_upt_sum)
  then show ?thesis
    using r assms by (simp add: sum_independent_dims_def sum_dim1_def)
qed

lemma expand_to_same: "shape t = s \<Longrightarrow> wf_tensor t \<Longrightarrow> expand_to s t = data t"
  by (simp add: expand_to_def expand_same wf_tensor_def del: expand.simps)

lemma DiagGaussian_bind_1d:
  assumes "shape mean = [n]" "shape ls = [n]" "wf_tensor mean" "wf_tensor ls"
  shows "DiagGaussianDistribution_proba_distribution self mean ls =
     Inr (self\<lparr>DiagGaussianDistribution.distribution := Some \<lparr>loc = \<lparr>shape = [n], data = data mean\<rparr>,
             scale = \<lparr>shape = [n], data = map exp (data ls)\<rparr>\<rparr>\<rparr>)"
proof -
  have l: "length (data mean) = n" "length (data ls) = n"
    using assms by (simp_all add: wf_tensor_def numel_def)
  have "binop (\<lambda>one s. one * s) (map_t (\<lambda>_. 1) mean) (map_t exp ls)
        = Inr \<lparr>shape = [n], data = map exp (data ls)\<rparr>"
    using assms l
    by (subst binop_same_shape) (auto simp: map_t_def wf_tensor_def numel_def intro!: nth_equalityI)
  moreover have "Normal mean \<lparr>shape = [n], data = map exp (data ls)\<rparr>
        = Inr \<lparr>loc = \<lparr>shape = [n], data = data mean\<rparr>, scale = \<lparr>shape = [n], data = map exp (data ls)\<rparr>\<rparr>"
    using assms l by (simp add: Normal_def expand_to_same wf_tensor_def numel_def)
  ultimately show ?thesis
    by (simp add: DiagGaussianDistribution_proba_distribution_def)
qed

lemma Normal_log_prob_1d:
  assumes "shape v = [n]" "wf_tensor v" "length ms = n" "length ss = n"
  shows "Normal_log_prob \<lparr>loc = \<lparr>shape = [n], data = ms\<rparr>, scale = \<lparr>shape = [n], data = ss\<rparr>\<rparr> v
     = Inr \<lparr>shape = [n], data = map (\<lambda>i. normal_log_density (data v ! i) (ms ! i) (ss ! i)) [0..<n]\<rparr>"
proof -
  have l: "length (data v) = n" using assms by (simp add: wf_tensor_def numel_def)
  have "binop (\<lambda>x m. (x, m)) v \<lparr>shape = [n], data = ms\<rparr> = Inr \<lparr>shape = [n], data = zip (data v) ms\<rparr>"
    using assms l
    by (subst binop_same_shape) (auto simp: wf_tensor_def numel_def intro!: nth_equalityI)
  moreover have "binop (\<lambda>(x, m) s. normal_log_density x m s) \<lparr>shape = [n], data = zip (data v) ms\<rparr> \<lparr>shape = [n], data = ss\<rparr>
     = Inr \<lparr>shape = [n], data = map (\<lambda>i. normal_log_density (data v ! i) (ms ! i) (ss ! i)) [0..<n]\<rparr>"
    using assms l
    by (subst binop_same_shape) (auto simp: wf_tensor_def numel_def intro!: nth_equalityI)
  ultimately show ?thesis by (simp add: Normal_log_prob_def)
qed

text \<open>
  Claim C10. \<^verbatim>\<open>sum_independent_dims\<close> sums over dimension 1 and keeps the batch
  dimension only when its input has more than one dimension: for a tensor of shape
  \<open>b # m # rest\<close> the result has shape \<open>b # rest\<close> and its entry \<open>(i, k)\<close> is the
  sum over \<open>j < m\<close> of the entries \<open>(i, j, k)\<close>. A 1-dimensional input is summed over
  all its entries into a 0-dimensional tensor. Hence the log-probability of a
  \<^verbatim>\<open>DiagGaussianDistribution\<close> bound to a 1-dimensional mean, evaluated at a
  1-dimensional action tensor of \<open>n\<close> entries, is one 0-dimensional number, the sum of
  the \<open>n\<close> per-entry log-densities, not a tensor of \<open>n\<close> values.
\<close>

theorem sum_independent_dims_collapses_unbatched:
  "(shape t = b # m # rest \<longrightarrow>
      (\<exists>r. sum_independent_dims t = Inr r \<and> shape r = b # rest
         \<and> length (data r) = b * numel rest
         \<and> (\<forall>i<b. \<forall>k<numel rest. data r ! (i * numel rest + k)
                = (\<Sum>j<m. data t ! ((i * m + j) * numel rest + k)))))
   \<and> (shape t = [n] \<longrightarrow>
        sum_independent_dims t = Inr \<lparr>shape = [], data = [sum_list (data t)]\<rparr>)
   \<and> (shape mean = [n] \<and> shape ls = [n] \<and> shape actions = [n]
        \<and> wf_tensor mean \<and> wf_tensor ls \<and> wf_tensor actions \<longrightarrow>
        (\<exists>self. DiagGaussianDistribution_proba_distribution (DiagGaussianDistribution_init d) mean ls
                  = Inr self
           \<and> DiagGaussianDistribution_log_prob self actions
               = Inr \<lparr>shape = [],
                      data = [(\<Sum>i<n. normal_log_density (data actions ! i) (data mean ! i)
                                       (exp (data ls ! i)))]\<rparr>))"
proof (intro conjI impI)
  assume "shape t = b # m # rest"
  then show "\<exists>r. sum_independent_dims t = Inr r \<and> shape r = b # rest
         \<and> length (data r) = b * numel rest
         \<and> (\<forall>i<b. \<forall>k<numel rest. data r ! (i * numel rest + k)
                = (\<Sum>j<m. data t ! ((i * m + j) * numel rest + k)))"
    by (rule sum_independent_dims_batch)
next
  assume "shape t = [n]"
  then show "sum_independent_dims t = Inr \<lparr>shape = [], data = [sum_list (data t)]\<rparr>"
    by (rule sum_independent_dims_rank1)
next
  assume a: "shape mean = [n] \<and> shape ls = [n] \<and> shape actions = [n]
        \<and> wf_tensor mean \<and> wf_tensor ls \<and> wf_tensor actions"
  let ?self = "(DiagGaussianDistribution_init d)\<lparr>DiagGaussianDistribution.distribution := Some \<lparr>loc = \<lparr>shape = [n], data = data mean\<rparr>,
             scale = \<lparr>shape = [n], data = map exp (data ls)\<rparr>\<rparr>\<rparr>"
  have l: "length (data mean) = n" "length (data ls) = n"
    using a by (simp_all add: wf_tensor_def numel_def)
  have b: "DiagGaussianDistribution_proba_distribution (DiagGaussianDistribution_init d) mean ls = Inr ?self"
    using a by (intro DiagGaussian_bind_1d) simp_all
  have "Normal_log_prob \<lparr>loc = \<lparr>shape = [n], data = data mean\<rparr>, scale = \<lparr>shape = [n], data = map exp (data ls)\<rparr>\<rparr> actions
     = Inr \<lparr>shape = [n], data = map (\<lambda>i. normal_log_density (data actions ! i) (data mean ! i) (map exp (data ls) ! i)) [0..<n]\<rparr>"
    using a l by (intro Normal_log_prob_1d) simp_all
  then have "DiagGaussianDistribution_log_prob ?self actions
     = Inr \<lparr>shape = [], data = [(\<Sum>i<n. normal_log_density (data actions ! i) (data mean ! i) (exp (data ls ! i)))]\<rparr>"
    using l by (simp add: DiagGaussianDistribution_log_prob_def sum_independent_dims_rank1 sum_list_upt_sum)
  with b show "\<exists>self. DiagGaussianDistribution_proba_distribution (DiagGaussianDistribution_init d) mean ls
                  = Inr self
           \<and> DiagGaussianDistribution_log_prob self actions
               = Inr \<lparr>shape = [],
                      data = [(\<Sum>i<n. normal_log_density (data actions ! i) (data mean ! i)
                                       (exp (data ls ! i)))]\<rparr>"
    by blast
qed

text \<open>The three parts at concrete tensors: a vector, a \<open>2 \<times> 2\<close> batch, and a Gaussian
  with two entries.\<close>

theorem sum_independent_dims_collapses_unbatched_witness:
  "sum_independent_dims \<lparr>shape = [3], data = [1, 2, 3]\<rparr> = Inr \<lparr>shape = [], data = [6]\<rparr>
   \<and> (\<exists>r. sum_independent_dims \<lparr>shape = [2, 2], data = [1, 2, 3, 4]\<rparr> = Inr r
          \<and> shape r = [2] \<and> data r ! 0 = 3 \<and> data r ! 1 = 7)
   \<and> (\<exists>self. DiagGaussianDistribution_proba_distribution (DiagGaussianDistribution_init 2)
                 \<lparr>shape = [2], data = [0, 0]\<rparr> \<lparr>shape = [2], data = [0, 0]\<rparr> = Inr self
          \<and> DiagGaussianDistribution_log_prob self \<lparr>shape = [2], data = [1, 1]\<rparr>
              = Inr \<lparr>shape = [], data = [- 1 - ln (2 * pi)]\<rparr>)"
proof -
  note a = sum_independent_dims_collapses_unbatched
      [of "\<lparr>shape = [3], data = [1, 2, 3]\<rparr>" 0 0 "[]" 3
          "\<lparr>shape = [2], data = [0, 0]\<rparr>" "\<lparr>shape = [2], data = [0, 0]\<rparr>"
          "\<lparr>shape = [2], data = [1, 1]\<rparr>" 2]
  note b = sum_independent_dims_collapses_unbatched
      [of "\<lparr>shape = [2, 2], data = [1, 2, 3, 4]\<rparr>" 2 2 "[]" 2
          "\<lparr>shape = [2], data = [0, 0]\<rparr>" "\<lparr>shape = [2], data = [0, 0]\<rparr>"
          "\<lparr>shape = [2], data = [1, 1]\<rparr>" 2]
  have c1: "sum_independent_dims \<lparr>shape = [3], data = [1, 2, 3]\<rparr> = Inr \<lparr>shape = [], data = [6]\<rparr>"
    using a by simp
  have two: "{..<2::nat} = {0, 1}" by auto
  have c2: "\<exists>r. sum_independent_dims \<lparr>shape = [2, 2], data = [1, 2, 3, 4]\<rparr> = Inr r
          \<and> shape r = [2] \<and> data r ! 0 = 3 \<and> data r ! 1 = 7"
  proof -
    from b obtain r where r: "sum_independent_dims \<lparr>shape = [2, 2], data = [1, 2, 3, 4]\<rparr> = Inr r"
      "shape r = [2]"
      "\<forall>i<2. \<forall>k<numel []. data r ! (i * numel [] + k)
                = (\<Sum>j<2. data \<lparr>shape = [2, 2], data = [1, 2, 3, 4::real]\<rparr> ! ((i * 2 + j) * numel [] + k))"
      by auto
    from r(3)[rule_format, of 0 0] r(3)[rule_format, of 1 0]
    have "data r ! 0 = 3" "data r ! 1 = 7"
      by (simp_all add: numel_def two)
    with r show ?thesis by blast
  qed
  have l: "ln (sqrt (2 * pi)) = ln (2 * pi) / 2"
    by (simp add: ln_sqrt)
  from b obtain self where s: "DiagGaussianDistribution_proba_distribution (DiagGaussianDistribution_init 2)
                 \<lparr>shape = [2], data = [0, 0]\<rparr> \<lparr>shape = [2], data = [0, 0]\<rparr> = Inr self"
     "DiagGaussianDistribution_log_prob self \<lparr>shape = [2], data = [1, 1]\<rparr>
        = Inr \<lparr>shape = [], data = [(\<Sum>i<2. normal_log_density (data \<lparr>shape = [2], data = [1, 1::real]\<rparr> ! i)
              (data \<lparr>shape = [2], data = [0, 0::real]\<rparr> ! i) (exp (data \<lparr>shape = [2], data = [0, 0::real]\<rparr> ! i)))]\<rparr>"
    by (auto simp: wf_tensor_def numel_def)
  have "(\<Sum>i<2. normal_log_density (data \<lparr>shape = [2], data = [1, 1::real]\<rparr> ! i)
              (data \<lparr>shape = [2], data = [0, 0::real]\<rparr> ! i) (exp (data \<lparr>shape = [2], data = [0, 0::real]\<rparr> ! i)))
        = - 1 - ln (2 * pi)"
    by (simp add: two normal_log_density_def l)
  with s have c3: "\<exists>self. DiagGaussianDistribution_proba_distribution (DiagGaussianDistribution_init 2)
                 \<lparr>shape = [2], data = [0, 0]\<rparr> \<lparr>shape = [2], data = [0, 0]\<rparr> = Inr self
          \<and> DiagGaussianDistribution_log_prob self \<lparr>shape = [2], data = [1, 1]\<rparr>
              = Inr \<lparr>shape = [], data = [- 1 - ln (2 * pi)]\<rparr>"
    by auto
  from c1 c2 c3 show ?thesis by blast
qed

subsection \<open>Argmax, minimum and masking\<close>

lemma first_index_map: "first_index P (map f xs) = first_index (\<lambda>x. P (f x)) xs"
  by (induction xs) auto

lemma argmax_list_mono:
  assumes "\<And>x y. (f x \<le> f y) = (x \<le> y)"
  shows "argmax_list (map f xs) = argmax_list xs"
  by (simp add: argmax_list_def first_index_map list.pred_map comp_def assms)

lemma argmax_list_softmax: "argmax_list (softmax r) = argmax_list r"
proof (cases r)
  case Nil
  then show ?thesis by (simp add: softmax_def)
next
  case (Cons a as)
  have "0 \<le> sum_list (map exp as)"
    by (rule sum_list_nonneg) auto
  then have "0 < sum_list (map exp r)"
    unfolding Cons by (simp add: add_pos_nonneg)
  then have "\<And>x y. (exp x / sum_list (map exp r) \<le> exp y / sum_list (map exp r)) = (x \<le> y)"
    by (simp add: divide_le_cancel)
  then show ?thesis unfolding softmax_def by (rule argmax_list_mono)
qed

lemma argmax_list_shift: "argmax_list (map (\<lambda>x. x - c) r) = argmax_list r"
  by (rule argmax_list_mono) simp

lemma rows_single: "length xs = n \<Longrightarrow> 0 < n \<Longrightarrow> rows n xs = [xs]"
  by (simp add: rows_def)

lemma ex1: "argmax_list [1, - 10, 3] = 2"
  by (simp add: argmax_list_def)

lemma min_all_Min:
  assumes "min_all t = Inr m"
  shows "data t \<noteq> [] \<and> m = Min (set (data t))"
proof (cases "data t")
  case Nil
  then show ?thesis using assms by (simp add: min_all_def)
next
  case (Cons a as)
  have "Min (set (a # as)) = fold min as a" by (rule Min.set_eq_fold)
  then show ?thesis using Cons assms by (simp add: min_all_def)
qed

lemma index_put_mask_nth:
  assumes "index_put_mask t msk v = Inr new"
  shows "shape new = shape t \<and> length (data new) = length (data t)
     \<and> (\<forall>p<length (data t). data new ! p
           = (if data msk ! (p div numel (drop (length (shape msk)) (shape t))) then v else data t ! p))"
  using assms by (auto simp: index_put_mask_def split: if_splits)

lemma LimitedActions_bind_unfold:
  assumes "CategoricalDistributionLimitedActions_proba_distribution self al obs = Inr self'"
  shows "\<exists>ob m new c. obs = Some ob \<and> min_all al = Inr m
     \<and> index_put_mask al (map_t (\<lambda>x. 0 < x) (get_invalid_actions_layer self ob))
          (if m - 10 \<ge> - 10 then - 10 else m - 10) = Inr new
     \<and> Categorical new = Inr c
     \<and> self' = self\<lparr>original_action_logits := Some al,
                     invalid_actions := Some (map_t (\<lambda>x. 0 < x) (get_invalid_actions_layer self ob)),
                     invalid_logit_value := Some (if m - 10 \<ge> - 10 then - 10 else m - 10),
                     new_action_logits := Some new,
                     CategoricalDistributionLimitedActions.distribution := Some c\<rparr>"
  using assms
  unfolding CategoricalDistributionLimitedActions_proba_distribution_def Let_def ebind_def
  by (auto split: option.splits sum.splits)

text \<open>A bind succeeds whenever the observation is given, the logits have at least one
  dimension and one entry, and the mask's shape is a prefix of the logits' shape.\<close>

lemma LimitedActions_bind_succeeds:
  assumes "data action_logits \<noteq> []" "shape action_logits \<noteq> []"
    "shape (get_invalid_actions_layer self ob)
       = take (length (shape (get_invalid_actions_layer self ob))) (shape action_logits)"
  shows "\<exists>self'. CategoricalDistributionLimitedActions_proba_distribution self action_logits (Some ob)
            = Inr self'"
proof -
  obtain x xs where d: "data action_logits = x # xs"
    using assms(1) by (cases "data action_logits") auto
  then have m: "min_all action_logits = Inr (fold min xs x)"
    by (simp add: min_all_def)
  show ?thesis
    unfolding CategoricalDistributionLimitedActions_proba_distribution_def
    using assms(2,3)
    by (simp add: m Let_def index_put_mask_def map_t_def Categorical_def)
qed

lemma Categorical_one_row:
  "length xs = n \<Longrightarrow> 0 < n \<Longrightarrow>
   Categorical \<lparr>shape = [1, n], data = xs\<rparr>
     = Inr \<lparr>categorical.logits = \<lparr>shape = [1, n], data = map (\<lambda>x. x - logsumexp xs) xs\<rparr>\<rparr>"
  by (simp add: Categorical_def rows_single)

lemma argmax_probs_one_row:
  assumes "length xs = n" "0 < n"
  shows "argmax_dim1 (Categorical_probs \<lparr>categorical.logits = \<lparr>shape = [1, n], data = map (\<lambda>x. x - c) xs\<rparr>\<rparr>)
     = Inr \<lparr>shape = [1], data = [argmax_list xs]\<rparr>"
proof -
  have p: "Categorical_probs \<lparr>categorical.logits = \<lparr>shape = [1, n], data = map (\<lambda>x. x - c) xs\<rparr>\<rparr>
      = \<lparr>shape = [1, n], data = softmax (map (\<lambda>x. x - c) xs)\<rparr>"
    using assms by (simp add: Categorical_probs_def rows_single)
  have l: "length (softmax (map (\<lambda>x. x - c) xs)) = n"
    using assms by (simp add: softmax_def)
  have "map (\<lambda>j. softmax (map (\<lambda>x. x - c) xs) ! j) [0..<n] = softmax (map (\<lambda>x. x - c) xs)"
    using l map_nth[of "softmax (map (\<lambda>x. x - c) xs)"] by simp
  then have "argmax_dim1 \<lparr>shape = [1, n], data = softmax (map (\<lambda>x. x - c) xs)\<rparr>
      = Inr \<lparr>shape = [1], data = [argmax_list (softmax (map (\<lambda>x. x - c) xs))]\<rparr>"
    using assms by (simp add: argmax_dim1_def reduce_dim1_def numel_def)
  then show ?thesis
    by (simp add: p argmax_list_softmax argmax_list_shift del: One_nat_def)
qed

lemma example_bind:
  fixes self0 :: "'o CategoricalDistributionLimitedActions"
  assumes "get_invalid_actions_layer self0 = (\<lambda>ob. \<lparr>shape = [1, 3], data = [0, 1, 0]\<rparr>)"
  shows "CategoricalDistributionLimitedActions_proba_distribution self0
           \<lparr>shape = [1, 3], data = [1, 2, 3]\<rparr> (Some ob)
         = Inr (self0\<lparr>original_action_logits := Some \<lparr>shape = [1, 3], data = [1, 2, 3]\<rparr>,
                     invalid_actions := Some \<lparr>shape = [1, 3], data = [False, True, False]\<rparr>,
                     invalid_logit_value := Some (- 10),
                     new_action_logits := Some \<lparr>shape = [1, 3], data = [1, - 10, 3]\<rparr>,
                     CategoricalDistributionLimitedActions.distribution :=
                       Some \<lparr>categorical.logits = \<lparr>shape = [1, 3],
                              data = map (\<lambda>x. x - logsumexp [1, - 10, 3]) [1, - 10, 3]\<rparr>\<rparr>\<rparr>)"
proof -
  have m: "min_all \<lparr>shape = [1, 3], data = [1, 2, 3]\<rparr> = Inr 1"
    by (simp add: min_all_def)
  have i: "index_put_mask \<lparr>shape = [1, 3], data = [1, 2, 3]\<rparr>
             \<lparr>shape = [1, 3], data = [False, True, False]\<rparr> (- 10)
           = Inr \<lparr>shape = [1, 3], data = [1, - 10, 3]\<rparr>"
    by (simp add: index_put_mask_def numel_def upt_rec[of 0] upt_rec[of 1] upt_rec[of 2] upt_rec[of 3])
  have c: "Categorical \<lparr>shape = [1, 3], data = [1, - 10, 3]\<rparr>
      = Inr \<lparr>categorical.logits = \<lparr>shape = [1, 3], data = map (\<lambda>x. x - logsumexp [1, - 10, 3]) [1, - 10, 3]\<rparr>\<rparr>"
    by (rule Categorical_one_row) simp_all
  show ?thesis
    unfolding CategoricalDistributionLimitedActions_proba_distribution_def
    by (simp add: assms map_t_def m i c Let_def del: One_nat_def)
qed

subsection \<open>The factory on a discrete space\<close>

text \<open>
  Claim C1 says that the factory, given a \<^verbatim>\<open>Discrete\<close> space, no exploration flag and
  an empty configuration, returns a plain \<^verbatim>\<open>CategoricalDistribution\<close> whose
  \<^verbatim>\<open>action_dim\<close> is the number of actions. The code does not: the factory reaches the
  constructor of \<^verbatim>\<open>CategoricalDistribution\<close>, which sets its fields and then raises
  \<^verbatim>\<open>Exception("In CategoricalDistribution")\<close> unconditionally, so for every \<open>n\<close> the call
  ends in that exception, with \<^verbatim>\<open>dist_kwargs\<close> absent or empty.
\<close>

theorem make_proba_distribution_discrete_raises:
  "make_proba_distribution (Discrete n) use_sde None
     = Inl (Exception ''In CategoricalDistribution'')
   \<and> make_proba_distribution (Discrete n) use_sde (Some [])
     = Inl (Exception ''In CategoricalDistribution'')"
  by (simp add: make_proba_distribution_def dict_get_def new_CategoricalDistribution_def
      CategoricalDistribution_init_def)

theorem make_proba_distribution_discrete_raises_witness:
  "make_proba_distribution (Discrete 3) False None
     = (Inl (Exception ''In CategoricalDistribution'') :: error + unit Distribution)
   \<and> make_proba_distribution (Discrete 3) False (Some [])
     = (Inl (Exception ''In CategoricalDistribution'') :: error + unit Distribution)"
  using make_proba_distribution_discrete_raises [of 3 False] by simp

subsection \<open>The masked categorical distribution\<close>

text \<open>No branch of the factory builds the \<^verbatim>\<open>_Manual\<close> variant.\<close>

lemma factory_never_Manual:
  "make_proba_distribution sp sde kw \<noteq> Inr (CategoricalDistributionLimitedActions_Manual_obj m)"
  by (auto simp: make_proba_distribution_def Let_def new_StateDependentNoiseDistribution_def
      new_DiagGaussianDistribution_def new_CategoricalDistributionLimitedActions_def
      new_CategoricalDistribution_def new_MultiCategoricalDistribution_def
      new_BernoulliDistribution_def CategoricalDistribution_init_def ebind_def
      split: option.splits sum.splits if_splits)

text \<open>
  Claim C2. A successful bind of \<^verbatim>\<open>CategoricalDistributionLimitedActions\<close> stores the
  invalid logit value \<open>v\<close>: the minimum of all raw logits minus 10 when that is below
  \<open>-10\<close>, and \<open>-10\<close> otherwise. The adjusted logits have the shape of the raw ones;
  an entry whose mask entry is set holds \<open>v\<close>, every other entry is the raw logit; the
  elementary categorical is built from the adjusted logits. For the raw logits
  \<open>[[1, 2, 3]]\<close> (one batch row) and a masking layer that flags index 1 only, the value
  is \<open>-10\<close>, the adjusted logits are \<open>[[1, -10, 3]]\<close> and \<^verbatim>\<open>mode()\<close> returns \<open>[2]\<close>.
\<close>

theorem masked_bind_invalid_logit_value:
  fixes self self0 :: "'o CategoricalDistributionLimitedActions"
  shows
  "(CategoricalDistributionLimitedActions_proba_distribution self action_logits obs = Inr self' \<longrightarrow>
      (\<exists>v new inv c.
         invalid_logit_value self' = Some v \<and> new_action_logits self' = Some new
         \<and> invalid_actions self' = Some inv
         \<and> v = (if Min (set (data action_logits)) - 10 < - 10
                then Min (set (data action_logits)) - 10 else - 10)
         \<and> shape new = shape action_logits \<and> length (data new) = length (data action_logits)
         \<and> (\<forall>p<length (data action_logits).
               data new ! p =
                 (if data inv ! (p div numel (drop (length (shape inv)) (shape action_logits)))
                  then v else data action_logits ! p))
         \<and> Categorical new = Inr c
         \<and> CategoricalDistributionLimitedActions.distribution self' = Some c))
   \<and> (get_invalid_actions_layer self0 = (\<lambda>ob. \<lparr>shape = [1, 3], data = [0, 1, 0]\<rparr>) \<longrightarrow>
        (\<exists>self1. CategoricalDistributionLimitedActions_proba_distribution self0
                    \<lparr>shape = [1, 3], data = [1, 2, 3]\<rparr> (Some ob) = Inr self1
           \<and> invalid_logit_value self1 = Some (- 10)
           \<and> invalid_actions self1 = Some \<lparr>shape = [1, 3], data = [False, True, False]\<rparr>
           \<and> new_action_logits self1 = Some \<lparr>shape = [1, 3], data = [1, - 10, 3]\<rparr>
           \<and> CategoricalDistributionLimitedActions_mode self1 = Inr \<lparr>shape = [1], data = [2]\<rparr>))"
proof (intro conjI impI)
  assume "CategoricalDistributionLimitedActions_proba_distribution self action_logits obs = Inr self'"
  from LimitedActions_bind_unfold[OF this] obtain ob m new c where
    u: "obs = Some ob" "min_all action_logits = Inr m"
       "index_put_mask action_logits (map_t (\<lambda>x. 0 < x) (get_invalid_actions_layer self ob))
          (if m - 10 \<ge> - 10 then - 10 else m - 10) = Inr new"
       "Categorical new = Inr c"
       "self' = self\<lparr>original_action_logits := Some action_logits,
                     invalid_actions := Some (map_t (\<lambda>x. 0 < x) (get_invalid_actions_layer self ob)),
                     invalid_logit_value := Some (if m - 10 \<ge> - 10 then - 10 else m - 10),
                     new_action_logits := Some new,
                     CategoricalDistributionLimitedActions.distribution := Some c\<rparr>"
    by blast
  have m: "m = Min (set (data action_logits))"
    using min_all_Min[OF u(2)] by simp
  have v: "(if m - 10 \<ge> - 10 then - 10 else m - 10)
      = (if Min (set (data action_logits)) - 10 < - 10
         then Min (set (data action_logits)) - 10 else - 10)"
    unfolding m by auto
  show "\<exists>v new inv c.
         invalid_logit_value self' = Some v \<and> new_action_logits self' = Some new
         \<and> invalid_actions self' = Some inv
         \<and> v = (if Min (set (data action_logits)) - 10 < - 10
                then Min (set (data action_logits)) - 10 else - 10)
         \<and> shape new = shape action_logits \<and> length (data new) = length (data action_logits)
         \<and> (\<forall>p<length (data action_logits).
               data new ! p =
                 (if data inv ! (p div numel (drop (length (shape inv)) (shape action_logits)))
                  then v else data action_logits ! p))
         \<and> Categorical new = Inr c
         \<and> CategoricalDistributionLimitedActions.distribution self' = Some c"
    using index_put_mask_nth[OF u(3)] u(4) unfolding u(5) v
    by (intro exI[of _ "if Min (set (data action_logits)) - 10 < - 10
                then Min (set (data action_logits)) - 10 else - 10"] exI[of _ new]
        exI[of _ "map_t (\<lambda>x. 0 < x) (get_invalid_actions_layer self ob)"] exI[of _ c]) simp
next
  assume a: "get_invalid_actions_layer self0 = (\<lambda>ob. \<lparr>shape = [1, 3], data = [0, 1, 0]\<rparr>)"
  have "argmax_dim1 (Categorical_probs \<lparr>categorical.logits = \<lparr>shape = [1, 3],
            data = map (\<lambda>x. x - logsumexp [1, - 10, 3]) [1, - 10, 3]\<rparr>\<rparr>)
     = Inr \<lparr>shape = [1], data = [argmax_list [1, - 10, 3]]\<rparr>"
    by (rule argmax_probs_one_row) simp_all
  then show "\<exists>self1. CategoricalDistributionLimitedActions_proba_distribution self0
                    \<lparr>shape = [1, 3], data = [1, 2, 3]\<rparr> (Some ob) = Inr self1
           \<and> invalid_logit_value self1 = Some (- 10)
           \<and> invalid_actions self1 = Some \<lparr>shape = [1, 3], data = [False, True, False]\<rparr>
           \<and> new_action_logits self1 = Some \<lparr>shape = [1, 3], data = [1, - 10, 3]\<rparr>
           \<and> CategoricalDistributionLimitedActions_mode self1 = Inr \<lparr>shape = [1], data = [2]\<rparr>"
    unfolding example_bind[OF a]
    by (simp add: CategoricalDistributionLimitedActions_mode_def ex1 del: One_nat_def)
qed

lemma LimitedActions_init_layer:
  "CategoricalDistributionLimitedActions_init n (PyLayerFactory f)
     = Inr \<lparr>CategoricalDistributionLimitedActions.action_dim = n,
            CategoricalDistributionLimitedActions.distribution = None, get_invalid_actions_layer = f,
            get_invalid_actions_obj = PyLayerFactory f,
            original_action_logits = None, valid_actions = None,
            invalid_actions = None, invalid_logit_value = None,
            new_action_logits = None\<rparr>"
  by (simp add: CategoricalDistributionLimitedActions_init_def)

theorem masked_bind_invalid_logit_value_witness:
  "\<exists>self0 self1.
      CategoricalDistributionLimitedActions_init 3
          (PyLayerFactory (\<lambda>ob :: unit list. \<lparr>shape = [1, 3], data = [0, 1, 0]\<rparr>)) = Inr self0
      \<and> CategoricalDistributionLimitedActions_proba_distribution self0
            \<lparr>shape = [1, 3], data = [1, 2, 3]\<rparr> (Some [()]) = Inr self1
      \<and> invalid_logit_value self1 = Some (- 10)
      \<and> Min (set (data \<lparr>shape = [1, 3], data = [1, 2, 3 :: real]\<rparr>)) - 10 = - 9
      \<and> new_action_logits self1 = Some \<lparr>shape = [1, 3], data = [1, - 10, 3]\<rparr>
      \<and> CategoricalDistributionLimitedActions_mode self1 = Inr \<lparr>shape = [1], data = [2]\<rparr>"
proof -
  define self0 :: "unit CategoricalDistributionLimitedActions" where
    "self0 = \<lparr>CategoricalDistributionLimitedActions.action_dim = 3,
            CategoricalDistributionLimitedActions.distribution = None,
            get_invalid_actions_layer = (\<lambda>ob. \<lparr>shape = [1, 3], data = [0, 1, 0]\<rparr>),
            get_invalid_actions_obj = PyLayerFactory (\<lambda>ob. \<lparr>shape = [1, 3], data = [0, 1, 0]\<rparr>),
            original_action_logits = None, valid_actions = None,
            invalid_actions = None, invalid_logit_value = None,
            new_action_logits = None\<rparr>"
  have i: "CategoricalDistributionLimitedActions_init 3
          (PyLayerFactory (\<lambda>ob :: unit list. \<lparr>shape = [1, 3], data = [0, 1, 0]\<rparr>)) = Inr self0"
    unfolding self0_def by (rule LimitedActions_init_layer)
  have l: "get_invalid_actions_layer self0 = (\<lambda>ob. \<lparr>shape = [1, 3], data = [0, 1, 0]\<rparr>)"
    by (simp add: self0_def)
  from masked_bind_invalid_logit_value[of _ _ _ _ self0 "[()]"] l
  obtain self1 where s: "CategoricalDistributionLimitedActions_proba_distribution self0
                    \<lparr>shape = [1, 3], data = [1, 2, 3]\<rparr> (Some [()]) = Inr self1"
           "invalid_logit_value self1 = Some (- 10)"
           "new_action_logits self1 = Some \<lparr>shape = [1, 3], data = [1, - 10, 3]\<rparr>"
           "CategoricalDistributionLimitedActions_mode self1 = Inr \<lparr>shape = [1], data = [2]\<rparr>"
    by blast
  from masked_bind_invalid_logit_value[of self0 "\<lparr>shape = [1, 3], data = [1, 2, 3]\<rparr>" "Some [()]" self1] s(1)
  have "invalid_logit_value self1 = Some (if Min (set (data \<lparr>shape = [1, 3], data = [1, 2, 3 :: real]\<rparr>)) - 10 < - 10
                then Min (set (data \<lparr>shape = [1, 3], data = [1, 2, 3 :: real]\<rparr>)) - 10 else - 10)"
    by auto
  have "Min (set (data \<lparr>shape = [1, 3], data = [1, 2, 3 :: real]\<rparr>)) - 10 = - 9"
    by simp
  with i s show ?thesis by blast
qed

text \<open>
  Claim C9. In a successful bind the mask is the masking layer's output compared with
  \<open>0\<close>: an entry is flagged exactly when the output there is strictly positive. A
  logit whose mask entry comes from an output of exactly \<open>0\<close> is left as it was.
\<close>

theorem masked_bind_flags_positive_outputs:
  fixes self :: "'o CategoricalDistributionLimitedActions"
  shows
  "CategoricalDistributionLimitedActions_proba_distribution self action_logits obs = Inr self' \<longrightarrow>
     (\<exists>ob inv new.
        obs = Some ob \<and> invalid_actions self' = Some inv \<and> new_action_logits self' = Some new
        \<and> shape inv = shape (get_invalid_actions_layer self ob)
        \<and> length (data inv) = length (data (get_invalid_actions_layer self ob))
        \<and> (\<forall>k<length (data (get_invalid_actions_layer self ob)).
              data inv ! k = (0 < data (get_invalid_actions_layer self ob) ! k))
        \<and> (\<forall>p<length (data action_logits).
              p div numel (drop (length (shape inv)) (shape action_logits))
                < length (data (get_invalid_actions_layer self ob))
              \<and> data (get_invalid_actions_layer self ob)
                   ! (p div numel (drop (length (shape inv)) (shape action_logits))) = 0
              \<longrightarrow> data new ! p = data action_logits ! p))"
proof
  assume "CategoricalDistributionLimitedActions_proba_distribution self action_logits obs = Inr self'"
  from LimitedActions_bind_unfold[OF this] obtain ob m new c where
    u: "obs = Some ob"
       "index_put_mask action_logits (map_t (\<lambda>x. 0 < x) (get_invalid_actions_layer self ob))
          (if m - 10 \<ge> - 10 then - 10 else m - 10) = Inr new"
       "self' = self\<lparr>original_action_logits := Some action_logits,
                     invalid_actions := Some (map_t (\<lambda>x. 0 < x) (get_invalid_actions_layer self ob)),
                     invalid_logit_value := Some (if m - 10 \<ge> - 10 then - 10 else m - 10),
                     new_action_logits := Some new,
                     CategoricalDistributionLimitedActions.distribution := Some c\<rparr>"
    by blast
  show "\<exists>ob inv new.
        obs = Some ob \<and> invalid_actions self' = Some inv \<and> new_action_logits self' = Some new
        \<and> shape inv = shape (get_invalid_actions_layer self ob)
        \<and> length (data inv) = length (data (get_invalid_actions_layer self ob))
        \<and> (\<forall>k<length (data (get_invalid_actions_layer self ob)).
              data inv ! k = (0 < data (get_invalid_actions_layer self ob) ! k))
        \<and> (\<forall>p<length (data action_logits).
              p div numel (drop (length (shape inv)) (shape action_logits))
                < length (data (get_invalid_actions_layer self ob))
              \<and> data (get_invalid_actions_layer self ob)
                   ! (p div numel (drop (length (shape inv)) (shape action_logits))) = 0
              \<longrightarrow> data new ! p = data action_logits ! p)"
    using index_put_mask_nth[OF u(2)] unfolding u(3)
    by (intro exI[of _ ob] exI[of _ "map_t (\<lambda>x. 0 < x) (get_invalid_actions_layer self ob)"]
        exI[of _ new]) (simp add: u(1) map_t_def)
qed

lemma example_instance:
  fixes self0 :: "unit CategoricalDistributionLimitedActions"
  assumes "CategoricalDistributionLimitedActions_init 3
          (PyLayerFactory (\<lambda>ob :: unit list. \<lparr>shape = [1, 3], data = [0, 1, 0]\<rparr>)) = Inr self0"
  shows "get_invalid_actions_layer self0 = (\<lambda>ob. \<lparr>shape = [1, 3], data = [0, 1, 0]\<rparr>)"
  using assms by (auto simp: CategoricalDistributionLimitedActions_init_def)

theorem masked_bind_flags_positive_outputs_witness:
  "\<exists>self0 self1 inv new.
      CategoricalDistributionLimitedActions_init 3
          (PyLayerFactory (\<lambda>ob :: unit list. \<lparr>shape = [1, 3], data = [0, 1, 0]\<rparr>)) = Inr self0
      \<and> CategoricalDistributionLimitedActions_proba_distribution self0
            \<lparr>shape = [1, 3], data = [1, 2, 3]\<rparr> (Some [()]) = Inr self1
      \<and> invalid_actions self1 = Some inv \<and> new_action_logits self1 = Some new
      \<and> data inv ! 0 = False \<and> data inv ! 1 = True \<and> data inv ! 2 = False
      \<and> data new ! 0 = 1 \<and> data new ! 2 = 3"
proof -
  obtain self0 :: "unit CategoricalDistributionLimitedActions" where
    i: "CategoricalDistributionLimitedActions_init 3
          (PyLayerFactory (\<lambda>ob :: unit list. \<lparr>shape = [1, 3], data = [0, 1, 0]\<rparr>)) = Inr self0"
    by (simp add: CategoricalDistributionLimitedActions_init_def)
  note l = example_instance[OF i]
  obtain self1 where b: "CategoricalDistributionLimitedActions_proba_distribution self0
            \<lparr>shape = [1, 3], data = [1, 2, 3]\<rparr> (Some [()]) = Inr self1"
    using example_bind[OF l] by blast
  from masked_bind_flags_positive_outputs[of self0 "\<lparr>shape = [1, 3], data = [1, 2, 3]\<rparr>" "Some [()]" self1] b
  obtain inv new where
    f: "invalid_actions self1 = Some inv" "new_action_logits self1 = Some new"
       "shape inv = shape (get_invalid_actions_layer self0 [()])"
       "\<forall>k<length (data (get_invalid_actions_layer self0 [()])).
              data inv ! k = (0 < data (get_invalid_actions_layer self0 [()]) ! k)"
       "\<forall>p<length (data \<lparr>shape = [1, 3], data = [1, 2, 3 :: real]\<rparr>).
              p div numel (drop (length (shape inv)) (shape \<lparr>shape = [1, 3], data = [1, 2, 3 :: real]\<rparr>))
                < length (data (get_invalid_actions_layer self0 [()]))
              \<and> data (get_invalid_actions_layer self0 [()])
                   ! (p div numel (drop (length (shape inv)) (shape \<lparr>shape = [1, 3], data = [1, 2, 3 :: real]\<rparr>))) = 0
              \<longrightarrow> data new ! p = data \<lparr>shape = [1, 3], data = [1, 2, 3 :: real]\<rparr> ! p"
    by auto
  have "data inv ! 0 = False" "data inv ! 1 = True" "data inv ! 2 = False"
    using f(4)[rule_format, of 0] f(4)[rule_format, of 1] f(4)[rule_format, of 2]
    by (simp_all add: l)
  moreover have "data new ! 0 = 1" "data new ! 2 = 3"
    using f(5)[rule_format, of 0] f(5)[rule_format, of 2] f(3)
    by (simp_all add: l numel_def)
  ultimately show ?thesis using i b f(1,2) by blast
qed

text \<open>
  Claim C3. The factory never returns the \<^verbatim>\<open>_Manual\<close> variant, so the masked variant it
  can return is \<^verbatim>\<open>CategoricalDistributionLimitedActions\<close>. After any successful bind of
  that variant, from any earlier state, there is one elementary categorical \<open>c\<close>, built
  from the masked logits, such that \<^verbatim>\<open>sample()\<close> is the draw from \<open>c\<close> and
  \<^verbatim>\<open>log_prob(actions)\<close> is the log-probability under \<open>c\<close>.
\<close>

theorem masked_sample_and_log_prob_share_distribution:
  fixes self :: "'o CategoricalDistributionLimitedActions"
    and m :: "'o CategoricalDistributionLimitedActions_Manual"
  shows
  "(CategoricalDistributionLimitedActions_proba_distribution self action_logits obs = Inr self' \<longrightarrow>
      (\<exists>ob v new c.
         obs = Some ob
         \<and> index_put_mask action_logits
              (map_t (\<lambda>x. 0 < x) (get_invalid_actions_layer self ob)) v = Inr new
         \<and> new_action_logits self' = Some new
         \<and> Categorical new = Inr c
         \<and> CategoricalDistributionLimitedActions_sample multinomial self'
             = Inr (Categorical_sample multinomial c)
         \<and> CategoricalDistributionLimitedActions_log_prob self' actions
             = Categorical_log_prob c actions))
   \<and> make_proba_distribution action_space use_sde dist_kwargs
        \<noteq> Inr (CategoricalDistributionLimitedActions_Manual_obj m)"
proof (intro conjI impI)
  assume "CategoricalDistributionLimitedActions_proba_distribution self action_logits obs = Inr self'"
  from LimitedActions_bind_unfold[OF this] obtain ob m new c where
    u: "obs = Some ob"
       "index_put_mask action_logits (map_t (\<lambda>x. 0 < x) (get_invalid_actions_layer self ob))
          (if m - 10 \<ge> - 10 then - 10 else m - 10) = Inr new"
       "Categorical new = Inr c"
       "self' = self\<lparr>original_action_logits := Some action_logits,
                     invalid_actions := Some (map_t (\<lambda>x. 0 < x) (get_invalid_actions_layer self ob)),
                     invalid_logit_value := Some (if m - 10 \<ge> - 10 then - 10 else m - 10),
                     new_action_logits := Some new,
                     CategoricalDistributionLimitedActions.distribution := Some c\<rparr>"
    by blast
  show "\<exists>ob v new c.
         obs = Some ob
         \<and> index_put_mask action_logits
              (map_t (\<lambda>x. 0 < x) (get_invalid_actions_layer self ob)) v = Inr new
         \<and> new_action_logits self' = Some new
         \<and> Categorical new = Inr c
         \<and> CategoricalDistributionLimitedActions_sample multinomial self'
             = Inr (Categorical_sample multinomial c)
         \<and> CategoricalDistributionLimitedActions_log_prob self' actions
             = Categorical_log_prob c actions"
    using u(1,2,3) unfolding u(4)
    by (intro exI[of _ ob] exI[of _ "if m - 10 \<ge> - 10 then - 10 else m - 10"] exI[of _ new]
        exI[of _ c])
       (simp add: CategoricalDistributionLimitedActions_sample_def
          CategoricalDistributionLimitedActions_log_prob_def)
next
  show "make_proba_distribution action_space use_sde dist_kwargs
        \<noteq> Inr (CategoricalDistributionLimitedActions_Manual_obj m)"
    by (rule factory_never_Manual)
qed

theorem masked_sample_and_log_prob_share_distribution_witness:
  "\<exists>self0 self1 c.
      make_proba_distribution (Discrete 3) False
          (Some [(''get_invalid_actions_layer'',
                  PyLayerFactory (\<lambda>ob :: unit list. \<lparr>shape = [1, 3], data = [0, 1, 0]\<rparr>))])
        = Inr (CategoricalDistributionLimitedActions_obj self0)
      \<and> CategoricalDistributionLimitedActions_proba_distribution self0
            \<lparr>shape = [1, 3], data = [1, 2, 3]\<rparr> (Some [()]) = Inr self1
      \<and> Categorical \<lparr>shape = [1, 3], data = [1, - 10, 3]\<rparr> = Inr c
      \<and> CategoricalDistributionLimitedActions_sample (\<lambda>p. \<lparr>shape = [1], data = [2]\<rparr>) self1
          = Inr (Categorical_sample (\<lambda>p. \<lparr>shape = [1], data = [2]\<rparr>) c)
      \<and> CategoricalDistributionLimitedActions_log_prob self1 \<lparr>shape = [1], data = [2]\<rparr>
          = Categorical_log_prob c \<lparr>shape = [1], data = [2]\<rparr>"
proof -
  obtain self0 :: "unit CategoricalDistributionLimitedActions" where
    i: "CategoricalDistributionLimitedActions_init 3
          (PyLayerFactory (\<lambda>ob :: unit list. \<lparr>shape = [1, 3], data = [0, 1, 0]\<rparr>)) = Inr self0"
    by (simp add: CategoricalDistributionLimitedActions_init_def)
  have mk: "make_proba_distribution (Discrete 3) False
          (Some [(''get_invalid_actions_layer'',
                  PyLayerFactory (\<lambda>ob :: unit list. \<lparr>shape = [1, 3], data = [0, 1, 0]\<rparr>))])
        = Inr (CategoricalDistributionLimitedActions_obj self0)"
    by (simp add: make_proba_distribution_def dict_get_def dict_del_def
        new_CategoricalDistributionLimitedActions_def i del: One_nat_def)
  note l = example_instance[OF i]
  note b = example_bind[OF l, of "[()]"]
  from masked_sample_and_log_prob_share_distribution
         [of self0 "\<lparr>shape = [1, 3], data = [1, 2, 3]\<rparr>" "Some [()]" _
             "\<lambda>p. \<lparr>shape = [1], data = [2]\<rparr>" "\<lparr>shape = [1], data = [2]\<rparr>"] b
  obtain new c where
    f: "new_action_logits (self0\<lparr>original_action_logits := Some \<lparr>shape = [1, 3], data = [1, 2, 3]\<rparr>,
                     invalid_actions := Some \<lparr>shape = [1, 3], data = [False, True, False]\<rparr>,
                     invalid_logit_value := Some (- 10),
                     new_action_logits := Some \<lparr>shape = [1, 3], data = [1, - 10, 3]\<rparr>,
                     CategoricalDistributionLimitedActions.distribution :=
                       Some \<lparr>categorical.logits = \<lparr>shape = [1, 3],
                              data = map (\<lambda>x. x - logsumexp [1, - 10, 3]) [1, - 10, 3]\<rparr>\<rparr>\<rparr>) = Some new"
       "Categorical new = Inr c"
       "CategoricalDistributionLimitedActions_sample (\<lambda>p. \<lparr>shape = [1], data = [2]\<rparr>)
           (self0\<lparr>original_action_logits := Some \<lparr>shape = [1, 3], data = [1, 2, 3]\<rparr>,
                     invalid_actions := Some \<lparr>shape = [1, 3], data = [False, True, False]\<rparr>,
                     invalid_logit_value := Some (- 10),
                     new_action_logits := Some \<lparr>shape = [1, 3], data = [1, - 10, 3]\<rparr>,
                     CategoricalDistributionLimitedActions.distribution :=
                       Some \<lparr>categorical.logits = \<lparr>shape = [1, 3],
                              data = map (\<lambda>x. x - logsumexp [1, - 10, 3]) [1, - 10, 3]\<rparr>\<rparr>\<rparr>)
          = Inr (Categorical_sample (\<lambda>p. \<lparr>shape = [1], data = [2]\<rparr>) c)"
       "CategoricalDistributionLimitedActions_log_prob
           (self0\<lparr>original_action_logits := Some \<lparr>shape = [1, 3], data = [1, 2, 3]\<rparr>,
                     invalid_actions := Some \<lparr>shape = [1, 3], data = [False, True, False]\<rparr>,
                     invalid_logit_value := Some (- 10),
                     new_action_logits := Some \<lparr>shape = [1, 3], data = [1, - 10, 3]\<rparr>,
                     CategoricalDistributionLimitedActions.distribution :=
                       Some \<lparr>categorical.logits = \<lparr>shape = [1, 3],
                              data = map (\<lambda>x. x - logsumexp [1, - 10, 3]) [1, - 10, 3]\<rparr>\<rparr>\<rparr>)
           \<lparr>shape = [1], data = [2]\<rparr>
          = Categorical_log_prob c \<lparr>shape = [1], data = [2]\<rparr>"
    by blast
  have "new = \<lparr>shape = [1, 3], data = [1, - 10, 3]\<rparr>" using f(1) by simp
  with f mk b show ?thesis by blast
qed

subsection \<open>The tanh bijector\<close>

lemma finfo_eps_range: "finfo_eps dt = Inr eps \<Longrightarrow> 0 < eps \<and> eps < 1"
  by (cases dt) auto

lemma clamp_entry_range:
  "0 < (eps::real) \<Longrightarrow> eps < 1 \<Longrightarrow>
   - 1 + eps \<le> min (max v (- 1 + eps)) (1 - eps) \<and> min (max v (- 1 + eps)) (1 - eps) \<le> 1 - eps"
  by (auto simp: min_def max_def)

lemma atanh_form_artanh:
  assumes "- 1 < x" "x < (1::real)"
  shows "0.5 * (log1p x - log1p (- x)) = artanh x"
  using assms by (simp add: log1p_def artanh_def ln_div)

lemma tanh_atanh_form:
  assumes "- 1 < x" "x < (1::real)"
  shows "tanh (0.5 * (log1p x - log1p (- x))) = x"
proof -
  have p: "0 < (1 + x) / (1 - x)" using assms by simp
  have "0.5 * (log1p x - log1p (- x)) = ln ((1 + x) / (1 - x)) / 2"
    using assms by (simp add: log1p_def ln_div)
  moreover have "- 2 * (ln ((1 + x) / (1 - x)) / 2) = - ln ((1 + x) / (1 - x))"
    by simp
  moreover have "exp (- ln ((1 + x) / (1 - x))) = (1 - x) / (1 + x)"
    using p by (simp add: exp_minus)
  ultimately have "tanh (0.5 * (log1p x - log1p (- x)))
      = (1 - (1 - x) / (1 + x)) / (1 + (1 - x) / (1 + x))"
    by (simp only: tanh_real_altdef)
  also have "\<dots> = x" using assms by (simp add: field_simps)
  finally show ?thesis .
qed

lemma TanhBijector_inverse_form:
  assumes "finfo_eps dt = Inr eps"
  shows "TanhBijector_inverse lp dt y
     = Inr \<lparr>shape = shape y,
            data = map (\<lambda>v. 0.5 * (lp (min (max v (- 1 + eps)) (1 - eps))
                                   - lp (- min (max v (- 1 + eps)) (1 - eps)))) (data y)\<rparr>"
  by (simp add: TanhBijector_inverse_def assms TanhBijector_atanh_def clamp_def map_t_def)

text \<open>
  Claim C7. For a floating dtype, with \<open>eps\<close> the value of \<^verbatim>\<open>torch.finfo(dtype).eps\<close>
  (the machine epsilon, that is the gap between \<open>1\<close> and the next representable value:
  \<open>2\<^sup>-\<^sup>2\<^sup>3\<close> for float32, \<open>2\<^sup>-\<^sup>5\<^sup>2\<close> for float64), \<^verbatim>\<open>TanhBijector.inverse(y)\<close> is
  \<^verbatim>\<open>atanh\<close> applied to \<open>y\<close> clamped entrywise into \<open>[-1 + eps, 1 - eps]\<close>; the clamp
  leaves entries of that interval unchanged. \<^verbatim>\<open>atanh\<close> is computed entrywise as
  \<open>0.5 * (lp x - lp (-x))\<close>, \<open>lp\<close> being the primitive \<^verbatim>\<open>log1p\<close>: the equation holds
  for every function put in the place of the primitive, so it fixes the form of the
  computation (the primitive applied to \<open>x\<close> and to \<open>-x\<close>, no quotient and no other
  logarithm) and not only its value. With the real \<open>log1p\<close> as the primitive the result
  is the inverse hyperbolic tangent \<open>artanh\<close> of the clamped entries, and \<open>tanh\<close> of the
  result is the clamped input.
\<close>

theorem TanhBijector_inverse_clamped_atanh:
  "finfo_eps dt = Inr eps \<longrightarrow>
     finfo_eps Float32 = Inr (1 / 2 ^ 23) \<and> finfo_eps Float64 = Inr (1 / 2 ^ 52)
     \<and> 0 < eps \<and> eps < 1
     \<and> (\<forall>lp. TanhBijector_inverse lp dt y
              = Inr (TanhBijector_atanh lp (clamp (- 1 + eps) (1 - eps) y))
            \<and> TanhBijector_inverse lp dt y
              = Inr \<lparr>shape = shape y,
                     data = map (\<lambda>v. 0.5 * (lp (min (max v (- 1 + eps)) (1 - eps))
                                            - lp (- min (max v (- 1 + eps)) (1 - eps))))
                                (data y)\<rparr>)
     \<and> (\<forall>v. - 1 + eps \<le> min (max v (- 1 + eps)) (1 - eps)
            \<and> min (max v (- 1 + eps)) (1 - eps) \<le> 1 - eps
            \<and> (- 1 + eps \<le> v \<and> v \<le> 1 - eps \<longrightarrow> min (max v (- 1 + eps)) (1 - eps) = v))
     \<and> TanhBijector_inverse log1p dt y
         = Inr (map_t (\<lambda>v. artanh (min (max v (- 1 + eps)) (1 - eps))) y)
     \<and> (\<forall>r. TanhBijector_inverse log1p dt y = Inr r \<longrightarrow>
            TanhBijector_forward r = clamp (- 1 + eps) (1 - eps) y)"
proof
  assume e: "finfo_eps dt = Inr eps"
  then have r: "0 < eps" "eps < 1" using finfo_eps_range by auto
  have c: "- 1 < min (max v (- 1 + eps)) (1 - eps)" "min (max v (- 1 + eps)) (1 - eps) < 1" for v
    using r by (auto simp: min_def max_def)
  have i1: "TanhBijector_inverse lp dt y
      = Inr (TanhBijector_atanh lp (clamp (- 1 + eps) (1 - eps) y))" for lp
    by (simp add: TanhBijector_inverse_def e)
  note i2 = TanhBijector_inverse_form[OF e, of _ y]
  have i3: "TanhBijector_inverse log1p dt y
      = Inr (map_t (\<lambda>v. artanh (min (max v (- 1 + eps)) (1 - eps))) y)"
    unfolding i2 map_t_def using atanh_form_artanh[OF c] by simp
  have i4: "TanhBijector_forward \<lparr>shape = shape y,
            data = map (\<lambda>v. 0.5 * (log1p (min (max v (- 1 + eps)) (1 - eps))
                                   - log1p (- min (max v (- 1 + eps)) (1 - eps)))) (data y)\<rparr>
      = clamp (- 1 + eps) (1 - eps) y"
    using tanh_atanh_form[OF c]
    by (simp add: TanhBijector_forward_def clamp_def map_t_def)
  have i5: "\<forall>r. TanhBijector_inverse log1p dt y = Inr r \<longrightarrow>
            TanhBijector_forward r = clamp (- 1 + eps) (1 - eps) y"
    unfolding i2 using i4 by simp
  have i6: "\<forall>v. - 1 + eps \<le> min (max v (- 1 + eps)) (1 - eps)
            \<and> min (max v (- 1 + eps)) (1 - eps) \<le> 1 - eps
            \<and> (- 1 + eps \<le> v \<and> v \<le> 1 - eps \<longrightarrow> min (max v (- 1 + eps)) (1 - eps) = v)"
    using r by (auto simp: min_def max_def)
  show "finfo_eps Float32 = Inr (1 / 2 ^ 23) \<and> finfo_eps Float64 = Inr (1 / 2 ^ 52)
     \<and> 0 < eps \<and> eps < 1
     \<and> (\<forall>lp. TanhBijector_inverse lp dt y
              = Inr (TanhBijector_atanh lp (clamp (- 1 + eps) (1 - eps) y))
            \<and> TanhBijector_inverse lp dt y
              = Inr \<lparr>shape = shape y,
                     data = map (\<lambda>v. 0.5 * (lp (min (max v (- 1 + eps)) (1 - eps))
                                            - lp (- min (max v (- 1 + eps)) (1 - eps))))
                                (data y)\<rparr>)
     \<and> (\<forall>v. - 1 + eps \<le> min (max v (- 1 + eps)) (1 - eps)
            \<and> min (max v (- 1 + eps)) (1 - eps) \<le> 1 - eps
            \<and> (- 1 + eps \<le> v \<and> v \<le> 1 - eps \<longrightarrow> min (max v (- 1 + eps)) (1 - eps) = v))
     \<and> TanhBijector_inverse log1p dt y
         = Inr (map_t (\<lambda>v. artanh (min (max v (- 1 + eps)) (1 - eps))) y)
     \<and> (\<forall>r. TanhBijector_inverse log1p dt y = Inr r \<longrightarrow>
            TanhBijector_forward r = clamp (- 1 + eps) (1 - eps) y)"
    using r i1 i2 i3 i5 i6 by simp
qed

theorem TanhBijector_inverse_clamped_atanh_witness:
  "TanhBijector_inverse log1p Float32 \<lparr>shape = [3], data = [0, 2, - 2]\<rparr>
     = Inr \<lparr>shape = [3], data = [0, artanh (1 - 1 / 2 ^ 23), artanh (- 1 + 1 / 2 ^ 23)]\<rparr>
   \<and> TanhBijector_inverse (\<lambda>x. x) Float32 \<lparr>shape = [2], data = [2, 1 / 2]\<rparr>
     = Inr \<lparr>shape = [2], data = [1 - 1 / 2 ^ 23, 1 / 2]\<rparr>"
proof -
  note t = TanhBijector_inverse_clamped_atanh
            [of Float32 "1 / 2 ^ 23" "\<lparr>shape = [3], data = [0, 2, - 2]\<rparr>"]
  note u = TanhBijector_inverse_clamped_atanh
            [of Float32 "1 / 2 ^ 23" "\<lparr>shape = [2], data = [2, 1 / 2]\<rparr>"]
  have "TanhBijector_inverse log1p Float32 \<lparr>shape = [3], data = [0, 2, - 2]\<rparr>
         = Inr (map_t (\<lambda>v. artanh (min (max v (- 1 + 1 / 2 ^ 23)) (1 - 1 / 2 ^ 23)))
                  \<lparr>shape = [3], data = [0, 2, - 2]\<rparr>)"
    using t finfo_eps.simps(3) by blast
  then have a: "TanhBijector_inverse log1p Float32 \<lparr>shape = [3], data = [0, 2, - 2]\<rparr>
     = Inr \<lparr>shape = [3], data = [0, artanh (1 - 1 / 2 ^ 23), artanh (- 1 + 1 / 2 ^ 23)]\<rparr>"
    by (simp add: map_t_def)
  have "TanhBijector_inverse (\<lambda>x. x) Float32 \<lparr>shape = [2], data = [2, 1 / 2]\<rparr>
         = Inr \<lparr>shape = shape \<lparr>shape = [2], data = [2, 1 / 2 :: real]\<rparr>,
                data = map (\<lambda>v. 0.5 * ((min (max v (- 1 + 1 / 2 ^ 23)) (1 - 1 / 2 ^ 23))
                                       - (- min (max v (- 1 + 1 / 2 ^ 23)) (1 - 1 / 2 ^ 23))))
                           (data \<lparr>shape = [2], data = [2, 1 / 2 :: real]\<rparr>)\<rparr>"
    using u finfo_eps.simps(3) by blast
  then have b: "TanhBijector_inverse (\<lambda>x. x) Float32 \<lparr>shape = [2], data = [2, 1 / 2]\<rparr>
     = Inr \<lparr>shape = [2], data = [1 - 1 / 2 ^ 23, 1 / 2]\<rparr>"
    by simp
  from a b show ?thesis by blast
qed

subsection \<open>Fields of a fresh gSDE instance\<close>

lemma init_fields:
  "use_expln (StateDependentNoiseDistribution_init n fs ue sq lf eps) = ue"
  "full_std (StateDependentNoiseDistribution_init n fs ue sq lf eps) = fs"
  "StateDependentNoiseDistribution.epsilon (StateDependentNoiseDistribution_init n fs ue sq lf eps) = eps"
  "learn_features (StateDependentNoiseDistribution_init n fs ue sq lf eps) = lf"
  "StateDependentNoiseDistribution.distribution (StateDependentNoiseDistribution_init n fs ue sq lf eps) = None"
  "latent_sde (StateDependentNoiseDistribution_init n fs ue sq lf eps) = None"
  "bijector (StateDependentNoiseDistribution_init n fs ue sq lf eps)
     = (if sq then Some (TanhBijector_init eps) else None)"
  by (simp_all add: StateDependentNoiseDistribution_init_def)

subsection \<open>The standard deviation of the gSDE distribution\<close>




lemma th_exp_in_range:
  "smallest_subnormal dt / 2 < exp x \<Longrightarrow> exp x \<le> finfo_max dt \<Longrightarrow> th_exp dt x = Fin (exp x)"
  by (simp add: th_exp_def)











subsection \<open>The gSDE noise\<close>

lemma mm_entries:
  assumes "shape x = [n, f]" "shape w = [f, a]"
  shows "\<exists>r. mm x w = Inr r \<and> shape r = [n, a]
     \<and> (\<forall>i<n. \<forall>j<a. data r ! (i * a + j)
            = (\<Sum>l<f. data x ! (i * f + l) * data w ! (l * a + j)))"
proof -
  define r where "r = \<lparr>shape = [n, a],
      data = map (\<lambda>q. sum_list (map (\<lambda>l. data x ! ((q div a) * f + l)
                                           * data w ! (l * a + q mod a)) [0..<f]))
                 [0..<n * a]\<rparr>"
  have "mm x w = Inr r" using assms by (simp add: mm_def r_def)
  moreover have "data r ! (i * a + j) = (\<Sum>l<f. data x ! (i * f + l) * data w ! (l * a + j))"
    if "i < n" "j < a" for i j
    using that block_index_less[of i n j a]
    by (simp add: r_def div_mod_block sum_list_upt_sum)
  ultimately show ?thesis by (auto simp: r_def)
qed

lemma get_noise_base:
  assumes "exploration_mat self = Some mat" "shape latent = n # rest"
    "n = 1 \<or> (exploration_matrices self = Some mats \<and> shape mats = k # rest' \<and> n \<noteq> k)"
  shows "StateDependentNoiseDistribution_get_noise self (Some latent) = mm latent mat"
  using assms by (auto simp: StateDependentNoiseDistribution_get_noise_def Let_def)

lemma get_noise_batched:
  assumes "exploration_matrices self = Some mats" "shape latent = [n, f]"
    "shape mats = [n, f, a]" "n \<noteq> 1"
  shows "\<exists>r. StateDependentNoiseDistribution_get_noise self (Some latent) = Inr r
     \<and> shape r = [n, a]
     \<and> (\<forall>i<n. \<forall>j<a. data r ! (i * a + j)
            = (\<Sum>l<f. data latent ! (i * f + l) * data mats ! ((i * f + l) * a + j)))"
proof -
  define r where "r = \<lparr>shape = [n, a],
      data = map (\<lambda>q. sum_list (map (\<lambda>l. data latent ! ((q div a) * f + l)
                                           * data mats ! (((q div a) * f + l) * a + q mod a)) [0..<f]))
                 [0..<n * a]\<rparr>"
  have "StateDependentNoiseDistribution_get_noise self (Some latent) = Inr r"
    using assms
    by (simp add: StateDependentNoiseDistribution_get_noise_def unsqueeze1_def bmm_def
        squeeze1_def r_def Let_def)
  moreover have "data r ! (i * a + j)
        = (\<Sum>l<f. data latent ! (i * f + l) * data mats ! ((i * f + l) * a + j))"
    if "i < n" "j < a" for i j
    using that block_index_less[of i n j a]
    by (simp add: r_def div_mod_block sum_list_upt_sum)
  ultimately show ?thesis by (auto simp: r_def)
qed

text \<open>
  Claim C8. When the base exploration matrix is set and the batch size (the first
  dimension of the latent features) is 1, or differs from the number of pre-sampled
  matrices, \<^verbatim>\<open>get_noise\<close> is the matrix product of the latent features with the base
  matrix, the same matrix for every row: entry \<open>(i, j)\<close> is the sum over \<open>l\<close> of
  \<open>latent[i, l] * mat[l, j]\<close>. When the batch size is not 1 and equals the number of
  pre-sampled matrices, entry \<open>(i, j)\<close> of the noise is the sum over \<open>l\<close> of
  \<open>latent[i, l] * matrices[i, l, j]\<close>: row \<open>i\<close> is multiplied by the \<open>i\<close>-th matrix.
\<close>

theorem get_noise_base_or_per_row:
  "(exploration_mat self = Some mat \<and> shape latent = n # rest
      \<and> (n = 1 \<or> (exploration_matrices self = Some mats \<and> shape mats = k # rest' \<and> n \<noteq> k))
      \<longrightarrow> StateDependentNoiseDistribution_get_noise self (Some latent) = mm latent mat)
   \<and> (shape latent = [n, f] \<and> shape mat = [f, a] \<longrightarrow>
        (\<exists>r. mm latent mat = Inr r \<and> shape r = [n, a]
           \<and> (\<forall>i<n. \<forall>j<a. data r ! (i * a + j)
                  = (\<Sum>l<f. data latent ! (i * f + l) * data mat ! (l * a + j)))))
   \<and> (exploration_matrices self = Some mats \<and> shape latent = [n, f]
        \<and> shape mats = [n, f, a] \<and> n \<noteq> 1 \<longrightarrow>
        (\<exists>r. StateDependentNoiseDistribution_get_noise self (Some latent) = Inr r
           \<and> shape r = [n, a]
           \<and> (\<forall>i<n. \<forall>j<a. data r ! (i * a + j)
                  = (\<Sum>l<f. data latent ! (i * f + l) * data mats ! ((i * f + l) * a + j)))))"
  using get_noise_base[of self mat latent n rest mats k rest']
        mm_entries[of latent n f mat a] get_noise_batched[of self mats latent n f a]
  by blast

theorem get_noise_base_or_per_row_witness:
  "(\<exists>r. StateDependentNoiseDistribution_get_noise
           ((StateDependentNoiseDistribution_init 1 True False False False (1 / 10 ^ 6))
              \<lparr>exploration_mat := Some \<lparr>shape = [2, 1], data = [1, 1]\<rparr>,
               exploration_matrices := Some \<lparr>shape = [2, 2, 1], data = [1, 0, 0, 1]\<rparr>\<rparr>)
           (Some \<lparr>shape = [1, 2], data = [1, 2]\<rparr>) = Inr r
        \<and> shape r = [1, 1] \<and> data r ! 0 = 3)
   \<and> (\<exists>r. StateDependentNoiseDistribution_get_noise
           ((StateDependentNoiseDistribution_init 1 True False False False (1 / 10 ^ 6))
              \<lparr>exploration_mat := Some \<lparr>shape = [2, 1], data = [1, 1]\<rparr>,
               exploration_matrices := Some \<lparr>shape = [2, 2, 1], data = [1, 0, 0, 1]\<rparr>\<rparr>)
           (Some \<lparr>shape = [2, 2], data = [1, 2, 3, 4]\<rparr>) = Inr r
        \<and> shape r = [2, 1] \<and> data r ! 0 = 1 \<and> data r ! 1 = 4)"
proof -
  let ?self = "(StateDependentNoiseDistribution_init 1 True False False False (1 / 10 ^ 6))
              \<lparr>exploration_mat := Some \<lparr>shape = [2, 1], data = [1, 1]\<rparr>,
               exploration_matrices := Some \<lparr>shape = [2, 2, 1], data = [1, 0, 0, 1]\<rparr>\<rparr>"
  let ?mat = "\<lparr>shape = [2, 1], data = [1, 1::real]\<rparr>"
  let ?mats = "\<lparr>shape = [2, 2, 1], data = [1, 0, 0, 1::real]\<rparr>"
  let ?l1 = "\<lparr>shape = [1, 2], data = [1, 2::real]\<rparr>"
  let ?l2 = "\<lparr>shape = [2, 2], data = [1, 2, 3, 4::real]\<rparr>"
  have two: "{..<2::nat} = {0, 1}" by auto
  have e: "exploration_mat ?self = Some ?mat" "exploration_matrices ?self = Some ?mats"
    by simp_all
  note t1 = get_noise_base_or_per_row[of ?self ?mat ?l1 1 "[2]" ?mats 2 "[2, 1]" 2 1]
  from t1 e have a: "StateDependentNoiseDistribution_get_noise ?self (Some ?l1) = mm ?l1 ?mat"
    by simp
  from t1 obtain r1 where r1: "mm ?l1 ?mat = Inr r1" "shape r1 = [1, 1]"
     "\<forall>i<1. \<forall>j<1. data r1 ! (i * 1 + j) = (\<Sum>l<2. data ?l1 ! (i * 2 + l) * data ?mat ! (l * 1 + j))"
    by auto
  from r1(3)[rule_format, of 0 0] have "data r1 ! 0 = 3"
    by (simp add: two)
  with a r1 have c1: "\<exists>r. StateDependentNoiseDistribution_get_noise ?self (Some ?l1) = Inr r
        \<and> shape r = [1, 1] \<and> data r ! 0 = 3"
    by auto
  note t2 = get_noise_base_or_per_row[of ?self ?mat ?l2 2 "[2]" ?mats 2 "[2, 1]" 2 1]
  from t2 e obtain r2 where r2: "StateDependentNoiseDistribution_get_noise ?self (Some ?l2) = Inr r2"
     "shape r2 = [2, 1]"
     "\<forall>i<2. \<forall>j<1. data r2 ! (i * 1 + j) = (\<Sum>l<2. data ?l2 ! (i * 2 + l) * data ?mats ! ((i * 2 + l) * 1 + j))"
    by auto
  from r2(3)[rule_format, of 0 0] r2(3)[rule_format, of 1 0]
  have "data r2 ! 0 = 1" "data r2 ! 1 = 4"
    by (simp_all add: two)
  with r2 have c2: "\<exists>r. StateDependentNoiseDistribution_get_noise ?self (Some ?l2) = Inr r
        \<and> shape r = [2, 1] \<and> data r ! 0 = 1 \<and> data r ! 1 = 4"
    by auto
  from c1 c2 show ?thesis by blast
qed

subsection \<open>\<^verbatim>\<open>kl_divergence\<close>\<close>

lemma kl_divergence_class_mismatch:
  "class_of p \<noteq> class_of q \<Longrightarrow> kl_divergence p q = Inl AssertionError"
  by (simp add: kl_divergence_def)

lemma np_allclose_refl: "np_allclose xs xs = Inr True"
  by (induction xs) (auto simp: np_allclose_def isclose_def list_all_iff)

lemma kl_divergence_multi_same_dims:
  assumes "MultiCategoricalDistribution.action_dims p = MultiCategoricalDistribution.action_dims q"
    "MultiCategoricalDistribution.distribution p = Some ps"
    "MultiCategoricalDistribution.distribution q = Some qs"
  shows "kl_divergence (MultiCategoricalDistribution_obj p) (MultiCategoricalDistribution_obj q)
     = ebind (emap (\<lambda>(p', q'). torch_kl (ECategorical p') (ECategorical q')) (zip ps qs))
         (\<lambda>kls. ebind (stack1 kls) sum_dim1)"
  using assms by (simp add: kl_divergence_def np_allclose_refl)

lemma kl_divergence_delegates:
  assumes "class_of p = class_of q" "class_of q \<noteq> ''MultiCategoricalDistribution''"
  shows "kl_divergence p q = torch_kl (distribution_of p) (distribution_of q)"
  using assms by (cases q; cases p) (simp_all add: kl_divergence_def)

lemma np_allclose_broadcast_example: "np_allclose (map real [2, 2]) (map real [2]) = Inr True"
  by (simp add: np_allclose_def isclose_def)

lemma upt_0_1: "[0..<1] = [0]"
  by simp

lemma split1_one: "split1 \<lparr>shape = [1, 2], data = [0, 0 :: real]\<rparr> [2]
    = Inr [\<lparr>shape = [1, 2], data = [0, 0]\<rparr>]"
  by (simp add: split1_def numel_def upt_0_1 del: One_nat_def)

lemma split1_two: "split1 \<lparr>shape = [1, 4], data = [0, 0, 0, 0 :: real]\<rparr> [2, 2]
    = Inr [\<lparr>shape = [1, 2], data = [0, 0]\<rparr>, \<lparr>shape = [1, 2], data = [0, 0]\<rparr>]"
  by (simp add: split1_def numel_def upt_0_1 del: One_nat_def)

lemma Categorical_zero_row:
  "Categorical \<lparr>shape = [1, 2], data = [0, 0]\<rparr>
     = Inr \<lparr>categorical.logits = \<lparr>shape = [1, 2], data = [- ln 2, - ln 2]\<rparr>\<rparr>"
  using Categorical_one_row[of "[0, 0]" 2] by (simp add: logsumexp_def)

lemma kl_same_row:
  "torch_kl (ECategorical \<lparr>categorical.logits = \<lparr>shape = [1, 2], data = [- ln 2, - ln 2]\<rparr>\<rparr>)
            (ECategorical \<lparr>categorical.logits = \<lparr>shape = [1, 2], data = [- ln 2, - ln 2]\<rparr>\<rparr>)
     = Inr \<lparr>shape = [1], data = [0]\<rparr>"
proof -
  let ?l = "\<lparr>shape = [1, 2], data = [- ln 2, - ln (2::real)]\<rparr>"
  let ?c = "\<lparr>categorical.logits = ?l\<rparr>"
  have w: "wf_tensor (tzip (Categorical_probs ?c) ?l)" "wf_tensor ?l"
    by (simp_all add: wf_tensor_def tzip_def Categorical_probs_def numel_def rows_single softmax_def)
  have "binop (\<lambda>(pp, pl) ql. pp * (pl - ql)) (tzip (Categorical_probs ?c) ?l) ?l
      = Inr \<lparr>shape = [1, 2], data = [0, 0]\<rparr>"
    using w
    by (subst binop_same_shape)
       (simp_all add: tzip_def Categorical_probs_def rows_single softmax_def del: One_nat_def)
  then show ?thesis
    by (simp add: sum_last_def rows_single del: One_nat_def)
qed

lemma stack1_single_vector:
  "stack1 [\<lparr>shape = [1], data = [x]\<rparr>] = Inr \<lparr>shape = [1, 1], data = [x]\<rparr>"
  by (simp add: stack1_def numel_def upt_0_1 del: One_nat_def)

lemma sum_dim1_single: "sum_dim1 \<lparr>shape = [1, 1], data = [x]\<rparr> = Inr \<lparr>shape = [1], data = [x]\<rparr>"
  by (simp add: sum_dim1_def reduce_dim1_def numel_def upt_0_1 del: One_nat_def)

text \<open>
  Claim C5 says that \<^verbatim>\<open>kl_divergence\<close> raises when two \<^verbatim>\<open>MultiCategorical\<close> inputs have
  different per-sub-space cardinality lists. The code asserts
  \<^verbatim>\<open>np.allclose(dist_pred.action_dims, dist_true.action_dims)\<close>, and \<^verbatim>\<open>np.allclose\<close>
  broadcasts an array of length 1: for the cardinalities \<open>[2]\<close> and \<open>[2, 2]\<close> the
  assertion holds, \<^verbatim>\<open>zip\<close> pairs the single categorical of the one side with the first
  of the other, and the call returns the tensor \<open>[0]\<close> where the claim (and the
  assertion's message) ask for an error. The rest of the claim holds: a mismatch of the
  classes raises (\<open>kl_divergence_class_mismatch\<close>), equal cardinality lists give the
  sum over the sub-spaces of the categorical divergences
  (\<open>kl_divergence_multi_same_dims\<close>), and every other variant delegates to PyTorch's
  divergence of the elementary distributions (\<open>kl_divergence_delegates\<close>).
\<close>

theorem kl_divergence_accepts_different_cardinalities:
  "\<exists>p q. MultiCategoricalDistribution_proba_distribution (MultiCategoricalDistribution_init [2])
              \<lparr>shape = [1, 2], data = [0, 0]\<rparr> = Inr p
      \<and> MultiCategoricalDistribution_proba_distribution (MultiCategoricalDistribution_init [2, 2])
              \<lparr>shape = [1, 4], data = [0, 0, 0, 0]\<rparr> = Inr q
      \<and> MultiCategoricalDistribution.action_dims p = [2]
      \<and> MultiCategoricalDistribution.action_dims q = [2, 2]
      \<and> kl_divergence (MultiCategoricalDistribution_obj p :: unit Distribution)
            (MultiCategoricalDistribution_obj q)
          = Inr \<lparr>shape = [1], data = [0]\<rparr>"
proof -
  let ?c = "\<lparr>categorical.logits = \<lparr>shape = [1, 2], data = [- ln 2, - ln (2::real)]\<rparr>\<rparr>"
  let ?p = "(MultiCategoricalDistribution_init [2])\<lparr>MultiCategoricalDistribution.distribution := Some [?c]\<rparr>"
  let ?q = "(MultiCategoricalDistribution_init [2, 2])\<lparr>MultiCategoricalDistribution.distribution := Some [?c, ?c]\<rparr>"
  have p: "MultiCategoricalDistribution_proba_distribution (MultiCategoricalDistribution_init [2])
              \<lparr>shape = [1, 2], data = [0, 0]\<rparr> = Inr ?p"
    by (simp add: MultiCategoricalDistribution_proba_distribution_def
        MultiCategoricalDistribution_init_def split1_one Categorical_zero_row del: One_nat_def)
  have q: "MultiCategoricalDistribution_proba_distribution (MultiCategoricalDistribution_init [2, 2])
              \<lparr>shape = [1, 4], data = [0, 0, 0, 0]\<rparr> = Inr ?q"
    by (simp add: MultiCategoricalDistribution_proba_distribution_def
        MultiCategoricalDistribution_init_def split1_two Categorical_zero_row del: One_nat_def)
  have d: "MultiCategoricalDistribution.action_dims ?p = [2]"
          "MultiCategoricalDistribution.action_dims ?q = [2, 2]"
    by (simp_all add: MultiCategoricalDistribution_init_def)
  have k: "kl_divergence (MultiCategoricalDistribution_obj ?p :: unit Distribution)
            (MultiCategoricalDistribution_obj ?q)
          = Inr \<lparr>shape = [1], data = [0]\<rparr>"
    using np_allclose_broadcast_example
    by (simp add: kl_divergence_def MultiCategoricalDistribution_init_def kl_same_row
        stack1_single_vector sum_dim1_single del: One_nat_def torch_kl.simps)
  from p q d k show ?thesis by blast
qed

subsection \<open>Queries before binding\<close>

lemma DiagGaussian_unbound:
  "DiagGaussianDistribution.distribution self = None \<Longrightarrow>
   DiagGaussianDistribution_sample randn self = Inl AttributeError
   \<and> DiagGaussianDistribution_mode self = Inl AttributeError
   \<and> DiagGaussianDistribution_log_prob self actions = Inl AttributeError
   \<and> DiagGaussianDistribution_entropy self = Inl AttributeError"
  by (simp add: DiagGaussianDistribution_sample_def DiagGaussianDistribution_mode_def
      DiagGaussianDistribution_log_prob_def DiagGaussianDistribution_entropy_def)

lemma Squashed_init_unbound:
  "DiagGaussianDistribution.distribution (SquashedDiagGaussianDistribution_init n eps) = None"
  by (simp add: SquashedDiagGaussianDistribution_init_def DiagGaussianDistribution_init_def
      DiagGaussianDistribution.extend_def)

lemma TanhBijector_inverse_cases:
  "TanhBijector_inverse lp dt y = Inl TypeError \<and> dt = Int64
   \<or> (\<exists>r. TanhBijector_inverse lp dt y = Inr r) \<and> dt \<noteq> Int64"
  by (cases dt) (simp_all add: TanhBijector_inverse_def)

lemma Squashed_unbound:
  fixes self :: SquashedDiagGaussianDistribution
  assumes "DiagGaussianDistribution.distribution self = None"
  shows "SquashedDiagGaussianDistribution_sample randn self = Inl AttributeError"
    "SquashedDiagGaussianDistribution_mode self = Inl AttributeError"
    "SquashedDiagGaussianDistribution_log_prob self dt actions g
       = (if g = None \<and> dt = Int64 then Inl TypeError else Inl AttributeError)"
    "SquashedDiagGaussianDistribution_entropy self = Inr None"
proof -
  note u = DiagGaussian_unbound[OF assms]
  show "SquashedDiagGaussianDistribution_sample randn self = Inl AttributeError"
    by (simp add: SquashedDiagGaussianDistribution_sample_def u)
  show "SquashedDiagGaussianDistribution_mode self = Inl AttributeError"
    by (simp add: SquashedDiagGaussianDistribution_mode_def u)
  show "SquashedDiagGaussianDistribution_log_prob self dt actions g
       = (if g = None \<and> dt = Int64 then Inl TypeError else Inl AttributeError)"
    using TanhBijector_inverse_cases[of log1p dt actions]
    by (cases g) (auto simp: SquashedDiagGaussianDistribution_log_prob_def u)
  show "SquashedDiagGaussianDistribution_entropy self = Inr None"
    by (simp add: SquashedDiagGaussianDistribution_entropy_def)
qed

lemma Categorical_unbound:
  "CategoricalDistribution.distribution self = None \<Longrightarrow>
   CategoricalDistribution_sample multinomial self = Inl AttributeError
   \<and> CategoricalDistribution_mode self = Inl AttributeError
   \<and> CategoricalDistribution_log_prob self actions = Inl AttributeError
   \<and> CategoricalDistribution_entropy self = Inl AttributeError"
  by (simp add: CategoricalDistribution_sample_def CategoricalDistribution_mode_def
      CategoricalDistribution_log_prob_def CategoricalDistribution_entropy_def)

lemma LimitedActions_unbound:
  "CategoricalDistributionLimitedActions_init n v = Inr self \<Longrightarrow>
   CategoricalDistributionLimitedActions_sample multinomial self = Inl AttributeError
   \<and> CategoricalDistributionLimitedActions_mode self = Inl AttributeError
   \<and> CategoricalDistributionLimitedActions_log_prob self actions = Inl AttributeError
   \<and> CategoricalDistributionLimitedActions_entropy self = Inl AttributeError"
  by (cases v)
     (auto simp: CategoricalDistributionLimitedActions_init_def
        CategoricalDistributionLimitedActions_sample_def
        CategoricalDistributionLimitedActions_mode_def
        CategoricalDistributionLimitedActions_log_prob_def
        CategoricalDistributionLimitedActions_entropy_def)

lemma Manual_unbound:
  "CategoricalDistributionLimitedActions_Manual_init n v = Inr self \<Longrightarrow>
   CategoricalDistributionLimitedActions_Manual_sample multinomial self = Inl AttributeError
   \<and> CategoricalDistributionLimitedActions_Manual_mode self = Inl AttributeError
   \<and> CategoricalDistributionLimitedActions_Manual_log_prob self actions = Inl AttributeError
   \<and> CategoricalDistributionLimitedActions_Manual_entropy self = Inl AttributeError"
  by (auto simp: CategoricalDistributionLimitedActions_Manual_init_def
        CategoricalDistributionLimitedActions_Manual_sample_def
        CategoricalDistributionLimitedActions_Manual_mode_def
        CategoricalDistributionLimitedActions_Manual_log_prob_def
        CategoricalDistributionLimitedActions_Manual_entropy_def split: if_splits)

lemma Multi_unbound:
  "MultiCategoricalDistribution_sample multinomial (MultiCategoricalDistribution_init ns) = Inl TypeError
   \<and> MultiCategoricalDistribution_mode (MultiCategoricalDistribution_init ns) = Inl TypeError
   \<and> MultiCategoricalDistribution_log_prob (MultiCategoricalDistribution_init ns) actions
       = (case unbind1 actions of Inl e \<Rightarrow> Inl e | Inr as \<Rightarrow> Inl TypeError)
   \<and> MultiCategoricalDistribution_entropy (MultiCategoricalDistribution_init ns) = Inl TypeError"
  by (simp add: MultiCategoricalDistribution_sample_def MultiCategoricalDistribution_mode_def
      MultiCategoricalDistribution_log_prob_def MultiCategoricalDistribution_entropy_def
      MultiCategoricalDistribution_init_def ebind_def)

lemma Bernoulli_unbound:
  "BernoulliDistribution_sample bern (BernoulliDistribution_init n) = Inl AttributeError
   \<and> BernoulliDistribution_mode (BernoulliDistribution_init n) = Inl AttributeError
   \<and> BernoulliDistribution_log_prob (BernoulliDistribution_init n) actions = Inl AttributeError
   \<and> BernoulliDistribution_entropy (BernoulliDistribution_init n) = Inl AttributeError"
  by (simp add: BernoulliDistribution_sample_def BernoulliDistribution_mode_def
      BernoulliDistribution_log_prob_def BernoulliDistribution_entropy_def
      BernoulliDistribution_init_def)

lemma SDE_unbound:
  "StateDependentNoiseDistribution_sample (StateDependentNoiseDistribution_init n fs ue sq lf eps)
     = (if lf then Inl TypeError else Inl AttributeError)"
  "StateDependentNoiseDistribution_mode (StateDependentNoiseDistribution_init n fs ue sq lf eps)
     = Inl AttributeError"
  "StateDependentNoiseDistribution_log_prob (StateDependentNoiseDistribution_init n fs ue sq lf eps)
       dt actions
     = (if sq \<and> dt = Int64 then Inl TypeError else Inl AttributeError)"
  "StateDependentNoiseDistribution_entropy (StateDependentNoiseDistribution_init n fs ue sq lf eps)
     = (if sq then Inr None else Inl AttributeError)"
proof -
  show "StateDependentNoiseDistribution_sample (StateDependentNoiseDistribution_init n fs ue sq lf eps)
     = (if lf then Inl TypeError else Inl AttributeError)"
    by (simp add: StateDependentNoiseDistribution_sample_def
        StateDependentNoiseDistribution_get_noise_def init_fields)
  show "StateDependentNoiseDistribution_mode (StateDependentNoiseDistribution_init n fs ue sq lf eps)
     = Inl AttributeError"
    by (simp add: StateDependentNoiseDistribution_mode_def init_fields)
  show "StateDependentNoiseDistribution_log_prob (StateDependentNoiseDistribution_init n fs ue sq lf eps)
       dt actions
     = (if sq \<and> dt = Int64 then Inl TypeError else Inl AttributeError)"
    using TanhBijector_inverse_cases[of log1p dt actions]
    by (auto simp: StateDependentNoiseDistribution_log_prob_def init_fields)
  show "StateDependentNoiseDistribution_entropy (StateDependentNoiseDistribution_init n fs ue sq lf eps)
     = (if sq then Inr None else Inl AttributeError)"
    by (simp add: StateDependentNoiseDistribution_entropy_def init_fields)
qed

text \<open>
  Claim C4 says that every query on a fresh instance raises. \<^verbatim>\<open>entropy()\<close> of the
  squashed variants does not look at the binding: it returns \<^verbatim>\<open>None\<close> (no analytical
  form), on a fresh \<^verbatim>\<open>SquashedDiagGaussianDistribution\<close> and on a fresh gSDE distribution
  built with \<^verbatim>\<open>squash_output\<close>.
\<close>

theorem squashed_entropy_before_bind_counterexample:
  "SquashedDiagGaussianDistribution_entropy
       (SquashedDiagGaussianDistribution_init 2 (1 / 10 ^ 6)) = Inr None
   \<and> StateDependentNoiseDistribution_entropy
       (StateDependentNoiseDistribution_init 2 True False True False (1 / 10 ^ 6)) = Inr None"
  by (simp add: SquashedDiagGaussianDistribution_entropy_def SDE_unbound)

text \<open>
  Claim C4 as amended. On a freshly constructed instance of every variant,
  \<^verbatim>\<open>sample()\<close>, \<^verbatim>\<open>mode()\<close> and \<^verbatim>\<open>log_prob(action)\<close> raise, and so does \<^verbatim>\<open>entropy()\<close>
  except on the squashed variants, where it returns \<^verbatim>\<open>None\<close>. The error is Python's
  \<^verbatim>\<open>AttributeError\<close> or \<^verbatim>\<open>TypeError\<close> from the unset \<^verbatim>\<open>distribution\<close> (the module
  defines no error type of its own). The plain \<^verbatim>\<open>CategoricalDistribution\<close> is covered
  through any instance whose \<^verbatim>\<open>distribution\<close> is unset.
\<close>

theorem queries_before_bind_raise:
  fixes lself :: "'o CategoricalDistributionLimitedActions"
    and mself :: "'p CategoricalDistributionLimitedActions_Manual"
  shows
  "(DiagGaussianDistribution_sample randn (DiagGaussianDistribution_init n) = Inl AttributeError
    \<and> DiagGaussianDistribution_mode (DiagGaussianDistribution_init n) = Inl AttributeError
    \<and> DiagGaussianDistribution_log_prob (DiagGaussianDistribution_init n) actions = Inl AttributeError
    \<and> DiagGaussianDistribution_entropy (DiagGaussianDistribution_init n) = Inl AttributeError)
   \<and> (SquashedDiagGaussianDistribution_sample randn (SquashedDiagGaussianDistribution_init n eps)
         = Inl AttributeError
       \<and> SquashedDiagGaussianDistribution_mode (SquashedDiagGaussianDistribution_init n eps)
         = Inl AttributeError
       \<and> SquashedDiagGaussianDistribution_log_prob (SquashedDiagGaussianDistribution_init n eps)
            dt actions g
         = (if g = None \<and> dt = Int64 then Inl TypeError else Inl AttributeError)
       \<and> SquashedDiagGaussianDistribution_entropy (SquashedDiagGaussianDistribution_init n eps)
         = Inr None)
   \<and> (CategoricalDistribution.distribution cself = None \<longrightarrow>
         CategoricalDistribution_sample multinomial cself = Inl AttributeError
         \<and> CategoricalDistribution_mode cself = Inl AttributeError
         \<and> CategoricalDistribution_log_prob cself iactions = Inl AttributeError
         \<and> CategoricalDistribution_entropy cself = Inl AttributeError)
   \<and> (CategoricalDistributionLimitedActions_init n v = Inr lself \<longrightarrow>
         CategoricalDistributionLimitedActions_sample multinomial lself = Inl AttributeError
         \<and> CategoricalDistributionLimitedActions_mode lself = Inl AttributeError
         \<and> CategoricalDistributionLimitedActions_log_prob lself iactions = Inl AttributeError
         \<and> CategoricalDistributionLimitedActions_entropy lself = Inl AttributeError)
   \<and> (CategoricalDistributionLimitedActions_Manual_init n v' = Inr mself \<longrightarrow>
         CategoricalDistributionLimitedActions_Manual_sample multinomial mself = Inl AttributeError
         \<and> CategoricalDistributionLimitedActions_Manual_mode mself = Inl AttributeError
         \<and> CategoricalDistributionLimitedActions_Manual_log_prob mself iactions = Inl AttributeError
         \<and> CategoricalDistributionLimitedActions_Manual_entropy mself = Inl AttributeError)
   \<and> (MultiCategoricalDistribution_sample multinomial (MultiCategoricalDistribution_init ns)
         = Inl TypeError
       \<and> MultiCategoricalDistribution_mode (MultiCategoricalDistribution_init ns) = Inl TypeError
       \<and> MultiCategoricalDistribution_log_prob (MultiCategoricalDistribution_init ns) iactions
           = (case unbind1 iactions of Inl e \<Rightarrow> Inl e | Inr as \<Rightarrow> Inl TypeError)
       \<and> MultiCategoricalDistribution_entropy (MultiCategoricalDistribution_init ns) = Inl TypeError)
   \<and> (BernoulliDistribution_sample bern (BernoulliDistribution_init n) = Inl AttributeError
       \<and> BernoulliDistribution_mode (BernoulliDistribution_init n) = Inl AttributeError
       \<and> BernoulliDistribution_log_prob (BernoulliDistribution_init n) actions = Inl AttributeError
       \<and> BernoulliDistribution_entropy (BernoulliDistribution_init n) = Inl AttributeError)
   \<and> (StateDependentNoiseDistribution_sample
           (StateDependentNoiseDistribution_init n fs ue sq lf eps)
         = (if lf then Inl TypeError else Inl AttributeError)
       \<and> StateDependentNoiseDistribution_mode
           (StateDependentNoiseDistribution_init n fs ue sq lf eps) = Inl AttributeError
       \<and> StateDependentNoiseDistribution_log_prob
           (StateDependentNoiseDistribution_init n fs ue sq lf eps) dt actions
         = (if sq \<and> dt = Int64 then Inl TypeError else Inl AttributeError)
       \<and> StateDependentNoiseDistribution_entropy
           (StateDependentNoiseDistribution_init n fs ue sq lf eps)
         = (if sq then Inr None else Inl AttributeError))"
proof -
  have dg: "DiagGaussianDistribution.distribution (DiagGaussianDistribution_init n) = None"
    by (simp add: DiagGaussianDistribution_init_def)
  show ?thesis
    by (intro conjI impI)
       (simp_all add: DiagGaussian_unbound[OF dg] Squashed_unbound[OF Squashed_init_unbound]
          Categorical_unbound LimitedActions_unbound Manual_unbound Multi_unbound
          Bernoulli_unbound SDE_unbound)
qed

theorem queries_before_bind_raise_witness:
  "DiagGaussianDistribution_sample (\<lambda>s. \<lparr>shape = s, data = []\<rparr>) (DiagGaussianDistribution_init 3)
      = Inl AttributeError
   \<and> (\<exists>self. CategoricalDistributionLimitedActions_init 3
                 (PyLayerFactory (\<lambda>ob :: unit list. \<lparr>shape = [1, 3], data = [0, 1, 0]\<rparr>)) = Inr self
          \<and> CategoricalDistributionLimitedActions_mode self = Inl AttributeError
          \<and> CategoricalDistributionLimitedActions_log_prob self \<lparr>shape = [1], data = [0]\<rparr>
               = Inl AttributeError)
   \<and> SquashedDiagGaussianDistribution_entropy (SquashedDiagGaussianDistribution_init 3 (1 / 10 ^ 6))
       = Inr None
   \<and> StateDependentNoiseDistribution_entropy
         (StateDependentNoiseDistribution_init 3 True False False False (1 / 10 ^ 6))
       = Inl AttributeError"
proof -
  obtain self0 :: "unit CategoricalDistributionLimitedActions" where
    i: "CategoricalDistributionLimitedActions_init 3
          (PyLayerFactory (\<lambda>ob :: unit list. \<lparr>shape = [1, 3], data = [0, 1, 0]\<rparr>)) = Inr self0"
    by (simp add: CategoricalDistributionLimitedActions_init_def)
  note t = queries_before_bind_raise
     [of "\<lambda>s. \<lparr>shape = s, data = []\<rparr>" 3 "\<lparr>shape = [1], data = [0]\<rparr>" "1 / 10 ^ 6" Float32 None
         "\<lparr>CategoricalDistribution.action_dim = 2, CategoricalDistribution.distribution = None\<rparr>"
         "\<lambda>p. \<lparr>shape = [1], data = [0]\<rparr>" "\<lparr>shape = [1], data = [0]\<rparr>"
         "PyLayerFactory (\<lambda>ob :: unit list. \<lparr>shape = [1, 3], data = [0, 1, 0]\<rparr>)" self0
         "PyNone :: unit pyval" _ "[2]" "\<lambda>p. p" True False False False]
  from t have a: "DiagGaussianDistribution_sample (\<lambda>s. \<lparr>shape = s, data = []\<rparr>) (DiagGaussianDistribution_init 3)
      = Inl AttributeError"
    by blast
  from t i have b: "CategoricalDistributionLimitedActions_mode self0 = Inl AttributeError"
     "CategoricalDistributionLimitedActions_log_prob self0 \<lparr>shape = [1], data = [0]\<rparr> = Inl AttributeError"
    by blast+
  from t have c: "SquashedDiagGaussianDistribution_entropy (SquashedDiagGaussianDistribution_init 3 (1 / 10 ^ 6))
       = Inr None"
    by blast
  from t have d: "StateDependentNoiseDistribution_entropy
         (StateDependentNoiseDistribution_init 3 True False False False (1 / 10 ^ 6))
       = (if False then Inr None else Inl AttributeError)"
    by blast
  from a b c d i show ?thesis by auto
qed

end
